theory Spec2Isabelle
  imports Complex_Main "HOL-Library.Sublist"
begin

section \<open>The notebook's helper \<open>fib\<close>\<close>

text \<open>
  \<^verbatim>\<open>
  def fib(n):
      return 1 if n <= 2 else  fib(n-1) + fib(n-2)
  \<close>
  Python integers are unbounded, so \<open>n\<close> is an \<open>int\<close>. The recursion is not structural;
  it ends because \<open>n\<close> decreases towards 2. (The interpreter's recursion-depth limit is a
  resource bound of the runtime and is not part of the model.)
\<close>

function fib :: "int \<Rightarrow> int" where
  "fib n = (if n \<le> 2 then 1 else fib (n - 1) + fib (n - 2))"
  by pat_completeness auto
termination
  by (relation "measure (\<lambda>n. nat n)") auto

declare fib.simps [simp del]

text \<open>The Fibonacci numbers, numbered so that \<open>F(1) = F(2) = 1\<close>.\<close>

fun Fibonacci :: "nat \<Rightarrow> nat" where
  "Fibonacci 0 = 0"
| "Fibonacci (Suc 0) = 1"
| "Fibonacci (Suc (Suc n)) = Fibonacci (Suc n) + Fibonacci n"

section \<open>Python values the notebook uses\<close>

text \<open>
  Errors are values. The notebook has no exception of its own; the failures its code
  could meet are the ones the interpreter raises on a missing dictionary key, an index
  out of range or a missing attribute, and whatever the modelling library raises, which
  is carried as the library gave it.
\<close>

type_synonym exn = string

datatype error = LibraryError exn | KeyError | IndexError | AttributeError

text \<open>\<open>range(size)\<close>: the integers \<open>0, ..., size - 1\<close>, none when \<open>size \<le> 0\<close> (the argument \<open>size\<close> is written \<open>sz\<close> throughout).\<close>

definition py_range :: "int \<Rightarrow> int list" where
  "py_range sz = [0..sz - 1]"

text \<open>Decimal rendering of an integer, as \<open>"%d" % i\<close> and \<open>"{0}".format(i)\<close> give it.\<close>

definition digit_char :: "nat \<Rightarrow> char" where
  "digit_char d = ''0123456789'' ! d"

function str_nat :: "nat \<Rightarrow> string" where
  "str_nat n = (if n < 10 then [digit_char n] else str_nat (n div 10) @ [digit_char (n mod 10)])"
  by pat_completeness auto
termination
  by (relation "measure (\<lambda>n. n)") auto

declare str_nat.simps [simp del]

definition str_int :: "int \<Rightarrow> string" where
  "str_int i = (if i < 0 then ''-'' @ str_nat (nat (- i)) else str_nat (nat i))"

text \<open>
  A dictionary is a finite map. A comprehension stores its items in order, a later item
  overwriting an earlier one with the same key.
\<close>

definition dict_of :: "('k \<times> 'v) list \<Rightarrow> ('k \<rightharpoonup> 'v)" where
  "dict_of kvs = fold (\<lambda>(k, v) d. d(k \<mapsto> v)) kvs Map.empty"

section \<open>The modelling library, as the notebook sees it\<close>

text \<open>
  The notebook builds its models through the API of an external modelling library. The
  library is not part of the repository; what follows is the model of it that the
  builders are run against. A model object holds its variables, its constraints and its
  objective. A linear expression holds one term (variable index, coefficient) for each
  variable that was given a coefficient other than zero, in the order the variables
  first came: the library makes no term of a zero coefficient, and adds up the
  coefficients given for one variable.
\<close>

datatype vartype = Binary | Integer | Continuous

record dvar =
  var_index :: nat
  var_name :: "string option"
  var_type :: vartype

type_synonym linexpr = "(nat \<times> int) list"

datatype sense = LE | EQ | GE

record lin_ct =
  ct_lhs :: linexpr
  ct_sense :: sense
  ct_rhs :: int
  ct_name :: "string option"

datatype obj_sense = Minimize | Maximize

datatype model_class = Model_class | AdvModel_class

record model =
  model_class_of :: model_class
  model_name :: string
  ignore_names :: bool
  checker :: "string option"
  vars :: "dvar list"
  cts :: "lin_ct list"
  objective :: "(obj_sense \<times> linexpr) option"

text \<open>
  Every entry into the library is a call with its arguments. Which calls raise, and
  what, is the library's business: it is a parameter \<open>L\<close> of every program
  (\<open>L c = Some x\<close>: the call \<open>c\<close> raises \<open>x\<close>; whether a call raises is taken to depend on
  the call and its arguments). \<open>never\<close> is the library that raises nothing.
\<close>

datatype lib_call =
    NewModel model_class string bool "string option"
  | BinaryVarDict "int list" string
  | BinaryVarList "int list" string
  | VarTimes dvar int
  | SumCall "linexpr list"
  | ScalProd "dvar list" "int list"
  | ScalProdVarsAllDifferent "dvar list" "int list"
  | ExprGE linexpr int
  | Add lin_ct string
  | AddConstraints "lin_ct list" "string list"
  | MinimizeCall linexpr
  | EndCall model

type_synonym library = "lib_call \<Rightarrow> exn option"

definition never :: library where
  "never = (\<lambda>c. None)"

section \<open>The notebook's state\<close>

text \<open>
  Everything the notebook's code can read or write beyond its arguments. The wall clock:
  \<open>clock w k\<close> is the value the \<open>k\<close>-th call of \<open>time.time()\<close> returns; nothing is assumed of
  it, not even that it grows. Clock readings are seconds as real numbers: the rounding
  of the interpreter's floating-point subtraction and multiplication is not modelled.
  The events so far, in the order they happened: the clock readings taken, the library
  calls made, the lines printed. And the global variables of the sampling cell.
\<close>

datatype event = ClockRead real | LibCall lib_call | Printed string

record notebook =
  clock :: "nat \<Rightarrow> real"
  events :: "event list"
  var_r :: int
  var_res :: "(nat \<times> int) \<rightharpoonup> int"
  var_m :: "model option"
  var_elapsed :: "int option"

fun reads :: "event list \<Rightarrow> nat" where
  "reads [] = 0"
| "reads (ClockRead t # es) = Suc (reads es)"
| "reads (e # es) = reads es"

fun printed :: "event list \<Rightarrow> string list" where
  "printed [] = []"
| "printed (Printed line # es) = line # printed es"
| "printed (e # es) = printed es"

fun lib_calls :: "event list \<Rightarrow> lib_call list" where
  "lib_calls [] = []"
| "lib_calls (LibCall c # es) = c # lib_calls es"
| "lib_calls (e # es) = lib_calls es"

text \<open>The number of clock readings taken, the output, and the library calls made.\<close>

definition ticks :: "notebook \<Rightarrow> nat" where
  "ticks w = reads (events w)"

definition out :: "notebook \<Rightarrow> string list" where
  "out w = printed (events w)"

definition calls :: "notebook \<Rightarrow> lib_call list" where
  "calls w = lib_calls (events w)"

text \<open>A notebook in which nothing has happened yet, with a given clock.\<close>

definition fresh :: "(nat \<Rightarrow> real) \<Rightarrow> notebook" where
  "fresh c = \<lparr>clock = c, events = [], var_r = 0, var_res = Map.empty,
              var_m = None, var_elapsed = None\<rparr>"

definition time_time :: "notebook \<Rightarrow> real \<times> notebook" where
  "time_time w = (clock w (ticks w), w\<lparr>events := events w @ [ClockRead (clock w (ticks w))]\<rparr>)"

definition print :: "string \<Rightarrow> notebook \<Rightarrow> notebook" where
  "print line w = w\<lparr>events := events w @ [Printed line]\<rparr>"

section \<open>Programs\<close>

text \<open>
  A piece of the notebook's code runs in the notebook's state and ends with an error (the
  exception that ended it) or with a value. Sequencing stops at the first error: the
  notebook has no \<open>try\<close> around any of its statements. A library call is recorded among
  the events, whether it raises or returns.
\<close>

type_synonym 'a prog = "notebook \<Rightarrow> (error + 'a) \<times> notebook"

definition return :: "'a \<Rightarrow> 'a prog" where
  "return a w = (Inr a, w)"

definition raise :: "error \<Rightarrow> 'a prog" where
  "raise e w = (Inl e, w)"

definition bind :: "'a prog \<Rightarrow> ('a \<Rightarrow> 'b prog) \<Rightarrow> 'b prog" where
  "bind p f w = (case p w of (Inl e, w1) \<Rightarrow> (Inl e, w1) | (Inr a, w1) \<Rightarrow> f a w1)"

definition lib :: "library \<Rightarrow> lib_call \<Rightarrow> 'a \<Rightarrow> 'a prog" where
  "lib L c result w =
     (case L c of Some x \<Rightarrow> Inl (LibraryError x) | None \<Rightarrow> Inr result,
      w\<lparr>events := events w @ [LibCall c]\<rparr>)"

fun mapM :: "('a \<Rightarrow> 'b prog) \<Rightarrow> 'a list \<Rightarrow> 'b list prog" where
  "mapM f [] = return []"
| "mapM f (x # xs) = bind (f x) (\<lambda>y. bind (mapM f xs) (\<lambda>ys. return (y # ys)))"

fun for_each :: "'a list \<Rightarrow> 's \<Rightarrow> ('a \<Rightarrow> 's \<Rightarrow> 's prog) \<Rightarrow> 's prog" where
  "for_each [] s f = return s"
| "for_each (x # xs) s f = bind (f x s) (\<lambda>s'. for_each xs s' f)"


text \<open>\<open>d[key]\<close> on a dictionary and \<open>xs[i]\<close> on a sequence (a negative index counts from the end).\<close>

definition getitem :: "('k \<rightharpoonup> 'v) \<Rightarrow> 'k \<Rightarrow> 'v prog" where
  "getitem d key = (case d key of None \<Rightarrow> raise KeyError | Some v \<Rightarrow> return v)"

definition seq_getitem :: "'a list \<Rightarrow> int \<Rightarrow> 'a prog" where
  "seq_getitem xs i =
     (if 0 \<le> i \<and> i < int (length xs) then return (xs ! nat i)
      else if i < 0 \<and> - int (length xs) \<le> i then return (xs ! nat (int (length xs) + i))
      else raise IndexError)"

subsection \<open>The API calls\<close>

text \<open>\<open>Model(name=..., ignore_names=..., checker=...)\<close> and \<open>AdvModel(...)\<close>: an empty model.\<close>

definition new_model :: "library \<Rightarrow> model_class \<Rightarrow> string \<Rightarrow> bool \<Rightarrow> string option \<Rightarrow> model prog" where
  "new_model L cls name ign chk =
     lib L (NewModel cls name ign chk)
       \<lparr>model_class_of = cls, model_name = name, ignore_names = ign, checker = chk,
        vars = [], cts = [], objective = None\<rparr>"

text \<open>
  One new binary variable per key, numbered on from the variables the model has, named
  \<open>name_key\<close> unless the model ignores names.
\<close>

definition given_name :: "model \<Rightarrow> string \<Rightarrow> string option" where
  "given_name m name = (if ignore_names m then None else Some name)"

definition binary_vars :: "model \<Rightarrow> int list \<Rightarrow> string \<Rightarrow> dvar list" where
  "binary_vars m keys name =
     map (\<lambda>(p, key). \<lparr>var_index = p, var_name = given_name m (name @ ''_'' @ str_int key),
                       var_type = Binary\<rparr>)
       (enumerate (length (vars m)) keys)"

definition binary_var_dict ::
  "library \<Rightarrow> model \<Rightarrow> int list \<Rightarrow> string \<Rightarrow> ((int \<rightharpoonup> dvar) \<times> model) prog" where
  "binary_var_dict L m keys name =
     (let vs = binary_vars m keys name
      in lib L (BinaryVarDict keys name) (dict_of (zip keys vs), m\<lparr>vars := vars m @ vs\<rparr>))"

definition binary_var_list ::
  "library \<Rightarrow> model \<Rightarrow> int list \<Rightarrow> string \<Rightarrow> (dvar list \<times> model) prog" where
  "binary_var_list L m keys name =
     (let vs = binary_vars m keys name
      in lib L (BinaryVarList keys name) (vs, m\<lparr>vars := vars m @ vs\<rparr>))"

text \<open>
  Building expressions. \<open>nonzero\<close> leaves out the terms with coefficient zero;
  \<open>add_term\<close> adds a term to an expression, on the variable's term when it has one, as a
  new last term otherwise.
\<close>

definition nonzero :: "(nat \<times> int) list \<Rightarrow> (nat \<times> int) list" where
  "nonzero ts = filter (\<lambda>t. snd t \<noteq> 0) ts"

fun add_term :: "linexpr \<Rightarrow> nat \<times> int \<Rightarrow> linexpr" where
  "add_term [] (v, c) = [(v, c)]"
| "add_term ((u, d) # ts) (v, c) =
     (if u = v then (u, d + c) # ts else (u, d) # add_term ts (v, c))"

text \<open>
  \<open>v * c\<close> (the zero expression when \<open>c\<close> is 0), \<open>m.sum(exprs)\<close>, \<open>m.scal_prod(vars, coefs)\<close>,
  \<open>m.scal_prod_vars_all_different(vars, coefs)\<close> (which trusts that no variable comes
  twice) and \<open>expr >= n\<close>.
\<close>

definition var_times :: "library \<Rightarrow> dvar \<Rightarrow> int \<Rightarrow> linexpr prog" where
  "var_times L v c = lib L (VarTimes v c) (if c = 0 then [] else [(var_index v, c)])"

definition sum_exprs :: "library \<Rightarrow> linexpr list \<Rightarrow> linexpr prog" where
  "sum_exprs L es = lib L (SumCall es) (foldl add_term [] (concat es))"

definition scal_prod :: "library \<Rightarrow> dvar list \<Rightarrow> int list \<Rightarrow> linexpr prog" where
  "scal_prod L vs cs =
     lib L (ScalProd vs cs) (foldl add_term [] (nonzero (zip (map var_index vs) cs)))"

definition scal_prod_vars_all_different :: "library \<Rightarrow> dvar list \<Rightarrow> int list \<Rightarrow> linexpr prog" where
  "scal_prod_vars_all_different L vs cs =
     lib L (ScalProdVarsAllDifferent vs cs) (nonzero (zip (map var_index vs) cs))"

definition expr_ge :: "library \<Rightarrow> linexpr \<Rightarrow> int \<Rightarrow> lin_ct prog" where
  "expr_ge L e n = lib L (ExprGE e n) \<lparr>ct_lhs = e, ct_sense = GE, ct_rhs = n, ct_name = None\<rparr>"

text \<open>
  \<open>m.add(ct, name)\<close>, \<open>m.add_constraints(cts, names)\<close>, \<open>m.minimize(expr)\<close>. The model keeps
  every constraint it is handed, also one whose left-hand side is the zero expression.
\<close>

definition named :: "model \<Rightarrow> lin_ct \<Rightarrow> string \<Rightarrow> lin_ct" where
  "named m ct name = ct\<lparr>ct_name := given_name m name\<rparr>"

definition add :: "library \<Rightarrow> model \<Rightarrow> lin_ct \<Rightarrow> string \<Rightarrow> model prog" where
  "add L m ct name = lib L (Add ct name) (m\<lparr>cts := cts m @ [named m ct name]\<rparr>)"

definition add_constraints :: "library \<Rightarrow> model \<Rightarrow> lin_ct list \<Rightarrow> string list \<Rightarrow> model prog" where
  "add_constraints L m cs names =
     lib L (AddConstraints cs names)
       (m\<lparr>cts := cts m @ map (\<lambda>(ct, name). named m ct name) (zip cs names)\<rparr>)"

definition minimize :: "library \<Rightarrow> model \<Rightarrow> linexpr \<Rightarrow> model prog" where
  "minimize L m e = lib L (MinimizeCall e) (m\<lparr>objective := Some (Minimize, e)\<rparr>)"

text \<open>\<open>m.end()\<close>: the model gives its resources back; the call returns nothing.\<close>

definition model_end :: "library \<Rightarrow> model \<Rightarrow> unit prog" where
  "model_end L m = lib L (EndCall m) ()"

section \<open>The benchmark builders\<close>

text \<open>
  \<^verbatim>\<open>
  def build_bench_model1(size=10):
      m = Model(name="bench1")
      rsize = range(size)
      ys = m.binary_var_dict(rsize, name="y")
      k = {(i,j) : (i + (i+j) %3) for i in rsize for j in rsize}
      for i in rsize:
          m.add(m.sum(ys[i] * k[i,j] for j in rsize) >= i, "ct_%d" %i)
      rsize1 = [i+1 for i in rsize]
      m.minimize(m.sum(ys[k] * rsize[k] for k in rsize))
      return m
  \<close>
  A generator handed to a call is run for the values the call consumes; the call is
  recorded with those values.
\<close>

definition build_bench_model1 :: "library \<Rightarrow> int \<Rightarrow> model prog" where
  "build_bench_model1 L sz =
     bind (new_model L Model_class ''bench1'' False None) (\<lambda>m.
     let rsize = py_range sz in
     bind (binary_var_dict L m rsize ''y'') (\<lambda>(ys, m).
     let k = dict_of (concat (map (\<lambda>i. map (\<lambda>j. ((i, j), i + (i + j) mod 3)) rsize) rsize)) in
     bind (for_each rsize m (\<lambda>i m.
        bind (mapM (\<lambda>j. bind (getitem ys i) (\<lambda>y. bind (getitem k (i, j)) (\<lambda>c.
                var_times L y c))) rsize) (\<lambda>terms.
        bind (sum_exprs L terms) (\<lambda>e.
        bind (expr_ge L e i) (\<lambda>ct.
        add L m ct (''ct_'' @ str_int i)))))) (\<lambda>m.
     let rsize1 = map (\<lambda>i. i + 1) rsize in
     bind (mapM (\<lambda>k. bind (getitem ys k) (\<lambda>y. bind (seq_getitem rsize k) (\<lambda>c.
             var_times L y c))) rsize) (\<lambda>terms.
     bind (sum_exprs L terms) (\<lambda>e.
     minimize L m e)))))"

text \<open>
  \<^verbatim>\<open>
  def build_bench_model2(size=10):
      m = Model(name="bench2")
      rsize = range(size)
      ys = m.binary_var_dict(rsize, name="y")
      k = {(i,j) : (i + (i+j) %3) for i in rsize for j in rsize}
      for i in rsize:
          m.add(m.scal_prod([ys[i1] for i1 in rsize], [k[i,j] for j in rsize]) >= i, "ct_%d" % i)
      rsize1 = [i+1 for i in rsize]
      m.minimize(m.scal_prod([ys[k] for k in rsize], rsize1))
      return m
  \<close>
\<close>

definition build_bench_model2 :: "library \<Rightarrow> int \<Rightarrow> model prog" where
  "build_bench_model2 L sz =
     bind (new_model L Model_class ''bench2'' False None) (\<lambda>m.
     let rsize = py_range sz in
     bind (binary_var_dict L m rsize ''y'') (\<lambda>(ys, m).
     let k = dict_of (concat (map (\<lambda>i. map (\<lambda>j. ((i, j), i + (i + j) mod 3)) rsize) rsize)) in
     bind (for_each rsize m (\<lambda>i m.
        bind (mapM (\<lambda>i1. getitem ys i1) rsize) (\<lambda>vs.
        bind (mapM (\<lambda>j. getitem k (i, j)) rsize) (\<lambda>cs.
        bind (scal_prod L vs cs) (\<lambda>e.
        bind (expr_ge L e i) (\<lambda>ct.
        add L m ct (''ct_'' @ str_int i))))))) (\<lambda>m.
     let rsize1 = map (\<lambda>i. i + 1) rsize in
     bind (mapM (\<lambda>k. getitem ys k) rsize) (\<lambda>vs.
     bind (scal_prod L vs rsize1) (\<lambda>e.
     minimize L m e)))))"

text \<open>
  \<^verbatim>\<open>
  def build_bench_model21(size=10):
      m = Model(name="bench2.1")
      rsize = range(size)
      ys = m.binary_var_list(rsize, name="y")
      k = {(i,j) : (i + (i+j) %3) for i in rsize for j in rsize}
      for i in rsize:
          m.add(m.scal_prod(ys, [k[i,j] for j in rsize]) >= i, "ct_%d" % i)
      rsize1 = [i+1 for i in rsize]
      m.minimize(m.scal_prod(ys, rsize1))
      return m
  \<close>
\<close>

definition build_bench_model21 :: "library \<Rightarrow> int \<Rightarrow> model prog" where
  "build_bench_model21 L sz =
     bind (new_model L Model_class ''bench2.1'' False None) (\<lambda>m.
     let rsize = py_range sz in
     bind (binary_var_list L m rsize ''y'') (\<lambda>(ys, m).
     let k = dict_of (concat (map (\<lambda>i. map (\<lambda>j. ((i, j), i + (i + j) mod 3)) rsize) rsize)) in
     bind (for_each rsize m (\<lambda>i m.
        bind (mapM (\<lambda>j. getitem k (i, j)) rsize) (\<lambda>cs.
        bind (scal_prod L ys cs) (\<lambda>e.
        bind (expr_ge L e i) (\<lambda>ct.
        add L m ct (''ct_'' @ str_int i)))))) (\<lambda>m.
     let rsize1 = map (\<lambda>i. i + 1) rsize in
     bind (scal_prod L ys rsize1) (\<lambda>e.
     minimize L m e))))"

text \<open>
  \<^verbatim>\<open>
  def build_bench_model3(size=10):
      m = Model(name="bench3")
      rsize = range(size)
      ys = m.binary_var_list(rsize, name="y")
      k = {(i,j) : (i + (i+j) %3) for i in rsize for j in rsize}
      m.add_constraints((m.scal_prod(ys, [k[i,j] for j in rsize]) >= i for i in rsize),
                       ["ct_%d" % i for i in rsize])
      rsize1 = [i+1 for i in rsize]
      m.minimize(m.scal_prod(ys, rsize1))
      return m
  \<close>
\<close>

definition build_bench_model3 :: "library \<Rightarrow> int \<Rightarrow> model prog" where
  "build_bench_model3 L sz =
     bind (new_model L Model_class ''bench3'' False None) (\<lambda>m.
     let rsize = py_range sz in
     bind (binary_var_list L m rsize ''y'') (\<lambda>(ys, m).
     let k = dict_of (concat (map (\<lambda>i. map (\<lambda>j. ((i, j), i + (i + j) mod 3)) rsize) rsize)) in
     let names = map (\<lambda>i. ''ct_'' @ str_int i) rsize in
     bind (mapM (\<lambda>i.
        bind (mapM (\<lambda>j. getitem k (i, j)) rsize) (\<lambda>cs.
        bind (scal_prod L ys cs) (\<lambda>e.
        expr_ge L e i))) rsize) (\<lambda>cs.
     bind (add_constraints L m cs names) (\<lambda>m.
     let rsize1 = map (\<lambda>i. i + 1) rsize in
     bind (scal_prod L ys rsize1) (\<lambda>e.
     minimize L m e)))))"

text \<open>
  Builders 4, 5 and 6 have one body and differ in the constructor's arguments:
  \<^verbatim>\<open>
  def build_bench_model4(size=10):
      m = Model(name="bench4")
      rsize = range(size)
      ys = m.binary_var_list(rsize, name="y")
      m.add_constraints((m.scal_prod(ys, [(i+ (i+j)%3) for j in rsize]) >= i for i in rsize),
                       ("ct_%d" % i for i in rsize))
      m.minimize(m.scal_prod(ys, (i+1 for i in rsize)))
      return m
  def build_bench_model5(size=10):
      m = Model(name="bench5", ignore_names=True)
      ...
  def build_bench_model6(size=10):
      m = Model(name="bench6", ignore_names=True, checker="off")
      ...
  \<close>
\<close>

definition build_bench_model4 :: "library \<Rightarrow> int \<Rightarrow> model prog" where
  "build_bench_model4 L sz =
     bind (new_model L Model_class ''bench4'' False None) (\<lambda>m.
     let rsize = py_range sz in
     bind (binary_var_list L m rsize ''y'') (\<lambda>(ys, m).
     bind (mapM (\<lambda>i.
        bind (scal_prod L ys (map (\<lambda>j. i + (i + j) mod 3) rsize)) (\<lambda>e.
        expr_ge L e i)) rsize) (\<lambda>cs.
     bind (add_constraints L m cs (map (\<lambda>i. ''ct_'' @ str_int i) rsize)) (\<lambda>m.
     bind (scal_prod L ys (map (\<lambda>i. i + 1) rsize)) (\<lambda>e.
     minimize L m e)))))"

definition build_bench_model5 :: "library \<Rightarrow> int \<Rightarrow> model prog" where
  "build_bench_model5 L sz =
     bind (new_model L Model_class ''bench5'' True None) (\<lambda>m.
     let rsize = py_range sz in
     bind (binary_var_list L m rsize ''y'') (\<lambda>(ys, m).
     bind (mapM (\<lambda>i.
        bind (scal_prod L ys (map (\<lambda>j. i + (i + j) mod 3) rsize)) (\<lambda>e.
        expr_ge L e i)) rsize) (\<lambda>cs.
     bind (add_constraints L m cs (map (\<lambda>i. ''ct_'' @ str_int i) rsize)) (\<lambda>m.
     bind (scal_prod L ys (map (\<lambda>i. i + 1) rsize)) (\<lambda>e.
     minimize L m e)))))"

definition build_bench_model6 :: "library \<Rightarrow> int \<Rightarrow> model prog" where
  "build_bench_model6 L sz =
     bind (new_model L Model_class ''bench6'' True (Some ''off'')) (\<lambda>m.
     let rsize = py_range sz in
     bind (binary_var_list L m rsize ''y'') (\<lambda>(ys, m).
     bind (mapM (\<lambda>i.
        bind (scal_prod L ys (map (\<lambda>j. i + (i + j) mod 3) rsize)) (\<lambda>e.
        expr_ge L e i)) rsize) (\<lambda>cs.
     bind (add_constraints L m cs (map (\<lambda>i. ''ct_'' @ str_int i) rsize)) (\<lambda>m.
     bind (scal_prod L ys (map (\<lambda>i. i + 1) rsize)) (\<lambda>e.
     minimize L m e)))))"

text \<open>
  \<^verbatim>\<open>
  def build_bench_model7(size=10):
      m = AdvModel(name="bench7", ignore_names=True, checker='off')
      rsize = range(size)
      ys = m.binary_var_list(rsize, name="y")
      m.add_constraints((m.scal_prod_vars_all_different(ys, [(i+ (i+j)%3) for j in rsize]) >= i for i in rsize),
                   ("ct_%d" % i for i in rsize))
      m.minimize(m.scal_prod_vars_all_different(ys, (i+1 for i in rsize)))
      return m
  \<close>
\<close>

definition build_bench_model7 :: "library \<Rightarrow> int \<Rightarrow> model prog" where
  "build_bench_model7 L sz =
     bind (new_model L AdvModel_class ''bench7'' True (Some ''off'')) (\<lambda>m.
     let rsize = py_range sz in
     bind (binary_var_list L m rsize ''y'') (\<lambda>(ys, m).
     bind (mapM (\<lambda>i.
        bind (scal_prod_vars_all_different L ys (map (\<lambda>j. i + (i + j) mod 3) rsize)) (\<lambda>e.
        expr_ge L e i)) rsize) (\<lambda>cs.
     bind (add_constraints L m cs (map (\<lambda>i. ''ct_'' @ str_int i) rsize)) (\<lambda>m.
     bind (scal_prod_vars_all_different L ys (map (\<lambda>i. i + 1) rsize)) (\<lambda>e.
     minimize L m e)))))"

text \<open>
  The builders of the notebook: the beginner's one, and the ones that hand the library
  scalar products.
\<close>

definition scal_prod_builders :: "(library \<Rightarrow> int \<Rightarrow> model prog) list" where
  "scal_prod_builders =
     [build_bench_model2, build_bench_model21, build_bench_model3, build_bench_model4,
      build_bench_model5, build_bench_model6, build_bench_model7]"

definition all_builders :: "(library \<Rightarrow> int \<Rightarrow> model prog) list" where
  "all_builders = build_bench_model1 # scal_prod_builders"

section \<open>The mathematical content of a model\<close>

text \<open>
  The coefficient of variable \<open>v\<close> in an expression, and the expression's dense row over
  the first \<open>n\<close> variables. What a model says mathematically is the types of its
  variables, each constraint's row, sense and right-hand side, and the objective's sense
  and row; names, the model's class and its options are not part of it.
\<close>

definition coef :: "linexpr \<Rightarrow> nat \<Rightarrow> int" where
  "coef e v = sum_list (map snd (filter (\<lambda>t. fst t = v) e))"

definition mentions :: "linexpr \<Rightarrow> nat \<Rightarrow> bool" where
  "mentions e v = (v \<in> fst ` set e)"

definition row :: "nat \<Rightarrow> linexpr \<Rightarrow> int list" where
  "row n e = map (coef e) [0..<n]"

definition math_model ::
  "model \<Rightarrow> vartype list \<times> (int list \<times> sense \<times> int) list \<times> (obj_sense \<times> int list) option" where
  "math_model m =
     (let n = length (vars m) in
      (map var_type (vars m),
       map (\<lambda>c. (row n (ct_lhs c), ct_sense c, ct_rhs c)) (cts m),
       map_option (\<lambda>(s, e). (s, row n e)) (objective m)))"

text \<open>
  The shape every builder's model will be proved to have: \<open>n\<close> binary variables numbered
  \<open>0, ..., n - 1\<close> and named \<open>y_p\<close>, \<open>n\<close> constraints \<open>lhs i \<ge> i\<close> named \<open>ct_i\<close> (no names when
  the model ignores them), and an objective to minimize.
\<close>

definition built_model ::
  "model_class \<Rightarrow> string \<Rightarrow> bool \<Rightarrow> string option \<Rightarrow> (nat \<Rightarrow> linexpr) \<Rightarrow> linexpr \<Rightarrow> nat \<Rightarrow> model" where
  "built_model cls name ign chk lhs obj n =
     \<lparr>model_class_of = cls, model_name = name, ignore_names = ign, checker = chk,
      vars = map (\<lambda>p. \<lparr>var_index = p,
                        var_name = (if ign then None else Some (''y_'' @ str_int (int p))),
                        var_type = Binary\<rparr>) [0..<n],
      cts = map (\<lambda>i. \<lparr>ct_lhs = lhs i, ct_sense = GE, ct_rhs = int i,
                       ct_name = (if ign then None else Some (''ct_'' @ str_int (int i)))\<rparr>) [0..<n],
      objective = Some (Minimize, obj)\<rparr>"

section \<open>Programs that only call the library\<close>

text \<open>
  \<open>emits p l r\<close>: started in any state of the notebook, \<open>p\<close> makes the library calls \<open>l\<close>, in
  this order, reads and writes nothing else, and ends with \<open>r\<close>. Such a program is
  faithful to the library when no call but its last one raised, and it ended in an error
  exactly when its last call raised, with that call's exception as the error: it stopped
  at the call that raised, added no error of its own and hid none of the library's.
\<close>

definition emits :: "'a prog \<Rightarrow> lib_call list \<Rightarrow> error + 'a \<Rightarrow> bool" where
  "emits p l r \<longleftrightarrow> (\<forall>w. p w = (r, w\<lparr>events := events w @ map LibCall l\<rparr>))"

definition faithful_run :: "library \<Rightarrow> lib_call list \<Rightarrow> error + 'a \<Rightarrow> bool" where
  "faithful_run L l r \<longleftrightarrow>
     list_all (\<lambda>c. L c = None) (butlast l) \<and>
     (case r of
        Inl e \<Rightarrow> l \<noteq> [] \<and> (case L (last l) of None \<Rightarrow> False | Some x \<Rightarrow> e = LibraryError x)
      | Inr a \<Rightarrow> list_all (\<lambda>c. L c = None) l)"

definition faithful :: "library \<Rightarrow> 'a prog \<Rightarrow> bool" where
  "faithful L p \<longleftrightarrow> (\<exists>l r. emits p l r \<and> faithful_run L l r)"

section \<open>The scoped timer\<close>

text \<open>
  \<^verbatim>\<open>
  class ContextTimer(object):
      def __init__(self, msg):
          self.msg = msg
          self.start = 0
      def __enter__(self):
          self.start = time.time()
          return self  # return value is value of with ()
      def __exit__(self, *args):
          elapsed = time.time() - self.start
          self.msecs = math.ceil(1000* elapsed)
          print('<-- {0},  time: {1:.0f} ms'.format(self.msg, self.msecs))
  \<close>
  The attribute \<open>msecs\<close> does not exist until \<open>__exit__\<close> has set it. A method returns its
  value, the object as the method left it, and the notebook's state. \<open>__exit__\<close> has no
  \<open>return\<close>: it returns \<open>None\<close>. The format \<open>{1:.0f}\<close> prints an integer in decimal (exactly
  so up to \<open>2^53\<close>, far beyond any number of milliseconds a clock gives).
\<close>

record timer =
  msg :: string
  start :: real
  msecs :: "int option"

datatype pyval = PyNone | PyBool bool

fun truthy :: "pyval \<Rightarrow> bool" where
  "truthy PyNone = False"
| "truthy (PyBool b) = b"

definition ContextTimer :: "string \<Rightarrow> timer" where
  "ContextTimer message = \<lparr>msg = message, start = 0, msecs = None\<rparr>"

definition timer_enter :: "timer \<Rightarrow> notebook \<Rightarrow> timer \<times> timer \<times> notebook" where
  "timer_enter self w =
     (let (now, w1) = time_time w;
          self1 = self\<lparr>start := now\<rparr>
      in (self1, self1, w1))"

definition timer_message :: "string \<Rightarrow> int \<Rightarrow> string" where
  "timer_message message ms = ''<-- '' @ message @ '',  time: '' @ str_int ms @ '' ms''"

definition timer_exit :: "timer \<Rightarrow> error option \<Rightarrow> notebook \<Rightarrow> pyval \<times> timer \<times> notebook" where
  "timer_exit self args w =
     (let (now, w1) = time_time w;
          elapsed = now - start self;
          ms = \<lceil>1000 * elapsed\<rceil>;
          self1 = self\<lparr>msecs := Some ms\<rparr>
      in (PyNone, self1, print (timer_message (msg self1) ms) w1))"

text \<open>
  \<open>with ContextTimer(message) as tt: body\<close>, as the language runs it: \<open>__enter__\<close>, the body,
  then \<open>__exit__\<close> on every way out of the body, with the exception when there is one; the
  exception goes on to the caller unless \<open>__exit__\<close> returned a true value. The outcome is
  the body's value (\<open>None\<close> when an exception was swallowed), with the timer as it was left.
  The body is given the timer as a value: no body of the notebook assigns to it.
\<close>

definition exc_info :: "error + 'a \<Rightarrow> error option" where
  "exc_info r = (case r of Inl e \<Rightarrow> Some e | Inr v \<Rightarrow> None)"

definition with_ContextTimer ::
  "string \<Rightarrow> (timer \<Rightarrow> 'a prog) \<Rightarrow> notebook \<Rightarrow> (error + 'a option) \<times> timer \<times> notebook" where
  "with_ContextTimer message body w =
     (let (tt, self1, w1) = timer_enter (ContextTimer message) w;
          (r, w2) = body tt w1;
          (ret, self2, w3) = timer_exit self1 (exc_info r) w2
      in (case r of
            Inr v \<Rightarrow> (Inr (Some v), self2, w3)
          | Inl e \<Rightarrow> if truthy ret then (Inr None, self2, w3) else (Inl e, self2, w3)))"

text \<open>
  The timed builds of the notebook:
  \<^verbatim>\<open>
  with ContextTimer("bench1 size={0}".format(N)):
      build_bench_model1(N)
  \<close>
\<close>

definition timed_build ::
  "library \<Rightarrow> string \<Rightarrow> (library \<Rightarrow> int \<Rightarrow> model prog) \<Rightarrow> int \<Rightarrow> notebook
     \<Rightarrow> (error + model option) \<times> timer \<times> notebook" where
  "timed_build L label bf N w = with_ContextTimer (label @ str_int N) (\<lambda>tt. bf L N) w"

section \<open>The performance-sampling loop\<close>












section \<open>Programs: sequencing, loops and dictionaries\<close>

lemma py_range_nat: "py_range sz = map int [0..<nat sz]"
proof (rule nth_equalityI)
  show "length (py_range sz) = length (map int [0..<nat sz])"
    by (simp add: py_range_def)
next
  fix i assume "i < length (py_range sz)"
  then show "py_range sz ! i = map int [0..<nat sz] ! i"
    by (simp add: py_range_def)
qed

lemma fst_return: "fst (return a w) = Inr a"
  by (simp add: return_def)

lemma fst_bind:
  "fst (bind p f w) = (case fst (p w) of Inl e \<Rightarrow> Inl e | Inr a \<Rightarrow> fst (f a (snd (p w))))"
  by (simp add: bind_def split: prod.split sum.split)

lemma fst_lib_never: "fst (lib never c r w) = Inr r"
  by (simp add: lib_def never_def)

lemma fst_mapM:
  assumes "\<And>x w. x \<in> set xs \<Longrightarrow> fst (f x w) = Inr (g x)"
  shows "fst (mapM f xs w) = Inr (map g xs)"
  using assms by (induction xs arbitrary: w) (simp_all add: fst_return fst_bind)

lemma dict_of_map_of: "dict_of kvs = map_of (rev kvs)"
proof -
  have "fold (\<lambda>(k, v) d. d(k \<mapsto> v)) kvs d = d ++ map_of (rev kvs)" for d :: "'a \<rightharpoonup> 'b"
    by (induction kvs arbitrary: d) (auto simp: map_add_def fun_eq_iff split: option.splits)
  then show ?thesis by (simp add: dict_of_def)
qed

lemma dict_of_Some:
  assumes "(k, v) \<in> set kvs" and "\<And>v'. (k, v') \<in> set kvs \<Longrightarrow> v' = v"
  shows "dict_of kvs k = Some v"
proof -
  have "k \<in> fst ` set (rev kvs)" using assms(1) by force
  then obtain v' where v': "map_of (rev kvs) k = Some v'"
    by (metis map_of_eq_None_iff not_Some_eq)
  then have "(k, v') \<in> set kvs" by (auto dest: map_of_SomeD)
  with assms(2) v' show ?thesis by (simp add: dict_of_map_of)
qed

lemma dom_dict_of: "dom (dict_of kvs) = fst ` set kvs"
  by (simp add: dict_of_map_of dom_map_of_conv_image_fst)

lemma fst_getitem: "d key = Some v \<Longrightarrow> fst (getitem d key w) = Inr v"
  by (simp add: getitem_def return_def)

subsection \<open>Programs that only call the library\<close>

lemma emits_fst: "emits p l r \<Longrightarrow> fst (p w) = r"
  by (simp add: emits_def)

lemma emits_snd: "emits p l r \<Longrightarrow> snd (p w) = w\<lparr>events := events w @ map LibCall l\<rparr>"
  by (simp add: emits_def)

lemma emits_return: "emits (return a) [] (Inr a)"
  by (simp add: emits_def return_def)

lemma emits_raise: "emits (raise e) [] (Inl e)"
  by (simp add: emits_def raise_def)

lemma emits_lib:
  "emits (lib L c x) [c] (case L c of Some e \<Rightarrow> Inl (LibraryError e) | None \<Rightarrow> Inr x)"
  by (simp add: emits_def lib_def)

lemma emits_bind_Inl: "emits p l (Inl e) \<Longrightarrow> emits (bind p f) l (Inl e)"
  by (simp add: emits_def bind_def)

lemma emits_bind_Inr: "emits p l (Inr a) \<Longrightarrow> emits (f a) l' r \<Longrightarrow> emits (bind p f) (l @ l') r"
  by (simp add: emits_def bind_def)

lemma faithful_run_append:
  assumes "list_all (\<lambda>c. L c = None) l" and "faithful_run L l' r"
  shows "faithful_run L (l @ l') r"
proof (cases "l' = []")
  case True
  with assms show ?thesis
    by (auto simp: faithful_run_def list_all_iff split: sum.splits dest: in_set_butlastD)
next
  case False
  with assms show ?thesis
    by (auto simp: faithful_run_def butlast_append list_all_iff split: sum.splits option.splits)
qed

lemma faithful_return: "faithful L (return a)"
  unfolding faithful_def by (intro exI conjI, rule emits_return) (simp add: faithful_run_def)

lemma faithful_raise_free: "faithful L p \<Longrightarrow> \<exists>l r. emits p l r"
  by (auto simp: faithful_def)

lemma faithful_lib: "faithful L (lib L c x)"
  unfolding faithful_def
  by (intro exI conjI, rule emits_lib) (simp add: faithful_run_def split: option.split)

lemma faithful_bind:
  assumes p: "faithful L p" and f: "\<And>a. \<forall>w. fst (p w) = Inr a \<Longrightarrow> faithful L (f a)"
  shows "faithful L (bind p f)"
proof -
  from p obtain l r where e: "emits p l r" and fr: "faithful_run L l r"
    by (auto simp: faithful_def)
  show ?thesis
  proof (cases r)
    case (Inl x)
    with e have "emits (bind p f) l (Inl x)"
      by (auto intro: emits_bind_Inl)
    moreover from fr Inl have "faithful_run L l (Inl x :: error + 'b)"
      by (simp add: faithful_run_def)
    ultimately show ?thesis
      unfolding faithful_def by blast
  next
    case (Inr a)
    with e have "\<forall>w. fst (p w) = Inr a"
      by (simp add: emits_fst)
    from f [OF this] obtain l' r' where e': "emits (f a) l' r'" and fr': "faithful_run L l' r'"
      by (auto simp: faithful_def)
    from fr Inr have "list_all (\<lambda>c. L c = None) l"
      by (simp add: faithful_run_def)
    then have "faithful_run L (l @ l') r'"
      using fr' by (rule faithful_run_append)
    moreover from e Inr e' have "emits (bind p f) (l @ l') r'"
      by (auto intro: emits_bind_Inr)
    ultimately show ?thesis
      unfolding faithful_def by blast
  qed
qed

lemma faithful_mapM: "(\<And>x. x \<in> set xs \<Longrightarrow> faithful L (f x)) \<Longrightarrow> faithful L (mapM f xs)"
  by (induction xs) (auto intro!: faithful_bind faithful_return)

lemma faithful_for_each:
  "(\<And>x s. x \<in> set xs \<Longrightarrow> faithful L (f x s)) \<Longrightarrow> faithful L (for_each xs s f)"
  by (induction xs arbitrary: s) (auto intro!: faithful_bind faithful_return)

lemma faithful_getitem: "\<exists>v. d key = Some v \<Longrightarrow> faithful L (getitem d key)"
  by (auto simp: getitem_def intro: faithful_return)

lemma faithful_seq_getitem: "0 \<le> i \<Longrightarrow> i < int (length xs) \<Longrightarrow> faithful L (seq_getitem xs i)"
  by (auto simp: seq_getitem_def intro: faithful_return)


subsection \<open>Expressions\<close>

lemma add_term_new: "v \<notin> fst ` set ts \<Longrightarrow> add_term ts (v, c) = ts @ [(v, c)]"
  by (induction ts) auto

lemma foldl_add_term_distinct:
  "distinct (map fst (acc @ ts)) \<Longrightarrow> foldl add_term acc ts = acc @ ts"
proof (induction ts arbitrary: acc)
  case Nil
  show ?case by simp
next
  case (Cons t ts)
  obtain v c where t: "t = (v, c)" by (cases t)
  from Cons.prems have "v \<notin> fst ` set acc"
    by (auto simp: t)
  then have "add_term acc t = acc @ [t]"
    by (simp add: t add_term_new)
  moreover from Cons.prems have "distinct (map fst ((acc @ [t]) @ ts))"
    by simp
  ultimately show ?case
    using Cons.IH [of "acc @ [t]"] by simp
qed

lemma distinct_nonzero: "distinct (map fst ts) \<Longrightarrow> distinct (map fst (nonzero ts))"
  by (simp add: nonzero_def distinct_map_filter)

lemma collect_distinct:
  "distinct (map fst ts) \<Longrightarrow> foldl add_term [] (nonzero ts) = nonzero ts"
  using foldl_add_term_distinct [of "[]" "nonzero ts"] by (simp add: distinct_nonzero)

lemma distinct_scalar: "distinct (map fst (map (\<lambda>j. (j, f j)) [0..<n]))"
  by (simp add: comp_def)

lemma nonzero_all: "(\<And>t. t \<in> set ts \<Longrightarrow> snd t \<noteq> 0) \<Longrightarrow> nonzero ts = ts"
  by (simp add: nonzero_def)

lemma foldl_add_term_single:
  "foldl add_term [(i, a)] (map (\<lambda>d. (i, d)) ds) = [(i, a + sum_list ds)]"
  by (induction ds arbitrary: a) (simp_all add: add.assoc)

lemma foldl_add_term_one_variable:
  "foldl add_term [] (map (\<lambda>d. (i, d)) ds) = (if ds = [] then [] else [(i, sum_list ds)])"
  by (cases ds) (simp_all add: foldl_add_term_single)

lemma concat_nonzero_terms:
  "concat (map (\<lambda>j. if c j = 0 then [] else [(v j, c j)]) js) = nonzero (map (\<lambda>j. (v j, c j)) js)"
  by (induction js) (simp_all add: nonzero_def)

lemma nonzero_one_variable:
  "nonzero (map (\<lambda>j. (i, c j)) js) = map (\<lambda>d. (i, d)) (filter (\<lambda>d. d \<noteq> 0) (map c js))"
  by (induction js) (simp_all add: nonzero_def)

lemma sum_list_filter_nonzero: "sum_list (filter (\<lambda>d. d \<noteq> 0) ds) = sum_list (ds :: int list)"
  by (induction ds) simp_all

lemma filter_nonzero_empty:
  "(\<And>d. d \<in> set ds \<Longrightarrow> 0 \<le> d) \<Longrightarrow> filter (\<lambda>d. d \<noteq> 0) ds = [] \<longleftrightarrow> sum_list (ds :: int list) = 0"
proof (induction ds)
  case Nil
  show ?case by simp
next
  case (Cons d ds)
  then have d: "0 \<le> d" "0 \<le> sum_list ds"
    by (simp_all add: sum_list_nonneg)
  from Cons have IH: "filter (\<lambda>d. d \<noteq> 0) ds = [] \<longleftrightarrow> sum_list ds = 0"
    by simp
  from d have "d + sum_list ds = 0 \<longleftrightarrow> d = 0 \<and> sum_list ds = 0"
    by linarith
  with IH show ?case
    by auto
qed

lemma sum_terms_one_variable:
  assumes "\<And>j. j \<in> set js \<Longrightarrow> 0 \<le> c j"
  shows "foldl add_term [] (concat (map (\<lambda>j. if c j = 0 then [] else [(i, c j)]) js)) =
           (if sum_list (map c js) = 0 then [] else [(i, sum_list (map c js))])"
proof -
  have "filter (\<lambda>d. d \<noteq> 0) (map c js) = [] \<longleftrightarrow> sum_list (map c js) = 0"
    using assms by (intro filter_nonzero_empty) auto
  then show ?thesis
    by (simp add: concat_nonzero_terms nonzero_one_variable foldl_add_term_one_variable
        sum_list_filter_nonzero)
qed


subsection \<open>The API calls, when the library raises nothing\<close>

lemma fst_calls_never [simp]:
  "fst (new_model never cls name ign chk w) = Inr \<lparr>model_class_of = cls, model_name = name, ignore_names = ign, checker = chk, vars = [], cts = [], objective = None\<rparr>"
  "fst (var_times never v c w) = Inr (if c = 0 then [] else [(var_index v, c)])"
  "fst (sum_exprs never es w) = Inr (foldl add_term [] (concat es))"
  "fst (scal_prod never vs cs w) = Inr (foldl add_term [] (nonzero (zip (map var_index vs) cs)))"
  "fst (scal_prod_vars_all_different never vs cs w) = Inr (nonzero (zip (map var_index vs) cs))"
  "fst (expr_ge never e n w) = Inr \<lparr>ct_lhs = e, ct_sense = GE, ct_rhs = n, ct_name = None\<rparr>"
  "fst (add never m ct nm w) = Inr (m\<lparr>cts := cts m @ [named m ct nm]\<rparr>)"
  "fst (add_constraints never m cl names w) = Inr (m\<lparr>cts := cts m @ map (\<lambda>(ct, name). named m ct name) (zip cl names)\<rparr>)"
  "fst (minimize never m e w) = Inr (m\<lparr>objective := Some (Minimize, e)\<rparr>)"
  "fst (model_end never m w) = Inr ()"
  by (simp_all add: fst_lib_never new_model_def var_times_def sum_exprs_def scal_prod_def
      scal_prod_vars_all_different_def expr_ge_def add_def add_constraints_def minimize_def model_end_def)

lemma binary_vars_range:
  "vars m = [] \<Longrightarrow> binary_vars m (map int [0..<n]) name =
     map (\<lambda>p. \<lparr>var_index = p, var_name = given_name m (name @ ''_'' @ str_int (int p)), var_type = Binary\<rparr>) [0..<n]"
  by (simp add: binary_vars_def enumerate_eq_zip zip_map2 zip_same_conv_map)

lemma length_binary_vars: "length (binary_vars m keys name) = length keys"
  by (simp add: binary_vars_def)

lemma fst_binary_var_list_never:
  "fst (binary_var_list never m keys name w) = Inr (binary_vars m keys name, m\<lparr>vars := vars m @ binary_vars m keys name\<rparr>)"
  by (simp add: binary_var_list_def fst_lib_never Let_def)

lemma fst_binary_var_dict_never:
  "fst (binary_var_dict never m keys name w) = Inr (dict_of (zip keys (binary_vars m keys name)), m\<lparr>vars := vars m @ binary_vars m keys name\<rparr>)"
  by (simp add: binary_var_dict_def fst_lib_never Let_def)

lemma dict_of_zip_range:
  assumes "length vs = n" "p < n"
  shows "dict_of (zip (map int [0..<n]) vs) (int p) = Some (vs ! p)"
proof (rule dict_of_Some)
  show "(int p, vs ! p) \<in> set (zip (map int [0..<n]) vs)"
    using assms by (auto simp: set_zip intro!: exI [of _ p])
next
  fix v' assume "(int p, v') \<in> set (zip (map int [0..<n]) vs)"
  then show "v' = vs ! p"
    using assms by (auto simp: set_zip)
qed

lemma k_dict:
  assumes "i < n" "j < n"
  shows "dict_of (concat (map (\<lambda>i. map (\<lambda>j. ((i, j), i + (i + j) mod 3)) (map int [0..<n])) (map int [0..<n])))
           (int i, int j) = Some (int i + (int i + int j) mod 3)"
  by (rule dict_of_Some) (use assms in \<open>auto intro!: bexI [of _ i] image_eqI [of _ _ j]\<close>)

lemma for_each_add:
  assumes "\<And>i m w. i \<in> set xs \<Longrightarrow> fst (body i m w) = Inr (m\<lparr>cts := cts m @ [named m (c i) (nm i)]\<rparr>)"
  shows "fst (for_each xs m body w) = Inr (m\<lparr>cts := cts m @ map (\<lambda>i. named m (c i) (nm i)) xs\<rparr>)"
  using assms
proof (induction xs arbitrary: m w)
  case Nil
  show ?case by (simp add: fst_return)
next
  case (Cons x xs)
  have "fst (body x m w) = Inr (m\<lparr>cts := cts m @ [named m (c x) (nm x)]\<rparr>)"
    using Cons.prems by simp
  moreover have "fst (for_each xs (m\<lparr>cts := cts m @ [named m (c x) (nm x)]\<rparr>) body (snd (body x m w))) =
      Inr (m\<lparr>cts := cts m @ [named m (c x) (nm x)]\<rparr>\<lparr>cts := cts (m\<lparr>cts := cts m @ [named m (c x) (nm x)]\<rparr>) @ map (\<lambda>i. named (m\<lparr>cts := cts m @ [named m (c x) (nm x)]\<rparr>) (c i) (nm i)) xs\<rparr>)"
    using Cons.prems by (intro Cons.IH) simp
  ultimately show ?case
    by (simp add: fst_bind named_def given_name_def)
qed

lemma zip_index_coefs:
  "map var_index vs = [0..<n] \<Longrightarrow> zip (map var_index vs) (map f (map int [0..<n])) = map (\<lambda>j. (j, f (int j))) [0..<n]"
  by (simp add: zip_map2 zip_same_conv_map)

lemma zip_range_coefs:
  "zip [0..<n] (map f (map int [0..<n])) = map (\<lambda>j. (j, f (int j))) [0..<n]"
  by (simp add: zip_map2 zip_same_conv_map)

lemma index_binary_vars:
  "vars m = [] \<Longrightarrow> map var_index (binary_vars m (map int [0..<n]) name) = [0..<n]"
  by (simp add: binary_vars_range map_idI)

lemma collect_scalar:
  "foldl add_term [] (nonzero (map (\<lambda>j. (j, f j)) [0..<n])) = nonzero (map (\<lambda>j. (j, f j)) [0..<n])"
  by (rule collect_distinct) (simp add: comp_def)

lemma foldl_scalar:
  "foldl add_term [] (map (\<lambda>j. (j, f j)) [0..<n]) = map (\<lambda>j. (j, f j)) [0..<n]"
  using foldl_add_term_distinct [of "[]" "map (\<lambda>j. (j, f j)) [0..<n]"] by (simp add: comp_def)

lemma nonzero_objective:
  "nonzero (map (\<lambda>k. (k, int k + 1)) [0..<n]) = map (\<lambda>k. (k, int k + 1)) [0..<n]"
  by (rule nonzero_all) auto

lemma constraints_gen:
  assumes "map var_index vs = [0..<n]"
  shows "fst (mapM (\<lambda>i. bind (scal_prod never vs (map (\<lambda>j. i + (i + j) mod 3) (map int [0..<n])))
                         (\<lambda>e. expr_ge never e i)) (map int [0..<n]) w) =
         Inr (map (\<lambda>i. \<lparr>ct_lhs = nonzero (map (\<lambda>j. (j, i + (i + int j) mod 3)) [0..<n]), ct_sense = GE,
                        ct_rhs = i, ct_name = None\<rparr>) (map int [0..<n]))"
  by (rule fst_mapM) (simp add: fst_bind zip_index_coefs [OF assms] collect_scalar del: map_map)

lemma build4_never:
  "fst (build_bench_model4 never sz w) =
     Inr (built_model Model_class ''bench4'' False None
            (\<lambda>i. nonzero (map (\<lambda>j. (j, int i + (int i + int j) mod 3)) [0..<nat sz]))
            (map (\<lambda>k. (k, int k + 1)) [0..<nat sz]) (nat sz))"
  unfolding build_bench_model4_def py_range_nat
  apply (simp add: fst_bind Let_def fst_binary_var_list_never constraints_gen index_binary_vars zip_index_coefs zip_range_coefs collect_scalar foldl_scalar nonzero_objective del: map_map)
  apply (simp add: built_model_def binary_vars_range given_name_def named_def zip_map1 zip_map2 zip_same_conv_map)
  done


lemma constraints_gen_adv:
  assumes "map var_index vs = [0..<n]"
  shows "fst (mapM (\<lambda>i. bind (scal_prod_vars_all_different never vs (map (\<lambda>j. i + (i + j) mod 3) (map int [0..<n])))
                         (\<lambda>e. expr_ge never e i)) (map int [0..<n]) w) =
         Inr (map (\<lambda>i. \<lparr>ct_lhs = nonzero (map (\<lambda>j. (j, i + (i + int j) mod 3)) [0..<n]), ct_sense = GE,
                        ct_rhs = i, ct_name = None\<rparr>) (map int [0..<n]))"
  by (rule fst_mapM) (simp add: fst_bind zip_index_coefs [OF assms] del: map_map)

lemma build5_never:
  "fst (build_bench_model5 never sz w) =
     Inr (built_model Model_class ''bench5'' True None
            (\<lambda>i. nonzero (map (\<lambda>j. (j, int i + (int i + int j) mod 3)) [0..<nat sz]))
            (map (\<lambda>k. (k, int k + 1)) [0..<nat sz]) (nat sz))"
  unfolding build_bench_model5_def py_range_nat
  apply (simp add: fst_bind Let_def fst_binary_var_list_never fst_binary_var_dict_never index_binary_vars length_binary_vars zip_index_coefs zip_range_coefs collect_scalar foldl_scalar nonzero_objective constraints_gen del: map_map)
  apply (simp add: built_model_def binary_vars_range given_name_def named_def zip_map1 zip_map2 zip_same_conv_map comp_def)
  done

lemma build6_never:
  "fst (build_bench_model6 never sz w) =
     Inr (built_model Model_class ''bench6'' True (Some ''off'')
            (\<lambda>i. nonzero (map (\<lambda>j. (j, int i + (int i + int j) mod 3)) [0..<nat sz]))
            (map (\<lambda>k. (k, int k + 1)) [0..<nat sz]) (nat sz))"
  unfolding build_bench_model6_def py_range_nat
  apply (simp add: fst_bind Let_def fst_binary_var_list_never fst_binary_var_dict_never index_binary_vars length_binary_vars zip_index_coefs zip_range_coefs collect_scalar foldl_scalar nonzero_objective constraints_gen del: map_map)
  apply (simp add: built_model_def binary_vars_range given_name_def named_def zip_map1 zip_map2 zip_same_conv_map comp_def)
  done

lemma build7_never:
  "fst (build_bench_model7 never sz w) =
     Inr (built_model AdvModel_class ''bench7'' True (Some ''off'')
            (\<lambda>i. nonzero (map (\<lambda>j. (j, int i + (int i + int j) mod 3)) [0..<nat sz]))
            (map (\<lambda>k. (k, int k + 1)) [0..<nat sz]) (nat sz))"
  unfolding build_bench_model7_def py_range_nat
  apply (simp add: fst_bind Let_def fst_binary_var_list_never fst_binary_var_dict_never index_binary_vars length_binary_vars zip_index_coefs zip_range_coefs collect_scalar foldl_scalar nonzero_objective constraints_gen_adv del: map_map)
  apply (simp add: built_model_def binary_vars_range given_name_def named_def zip_map1 zip_map2 zip_same_conv_map comp_def)
  done

lemma coefs_row:
  assumes "i \<in> set (map int [0..<n])"
  shows "fst (mapM (\<lambda>j. getitem (dict_of (concat (map (\<lambda>i. map (\<lambda>j. ((i, j), i + (i + j) mod 3)) (map int [0..<n])) (map int [0..<n])))) (i, j)) (map int [0..<n]) w) =
     Inr (map (\<lambda>j. i + (i + j) mod 3) (map int [0..<n]))"
proof (rule fst_mapM)
  fix j w assume "j \<in> set (map int [0..<n])"
  with assms obtain i' j' where "i = int i'" "i' < n" "j = int j'" "j' < n"
    by auto
  then show "fst (getitem (dict_of (concat (map (\<lambda>i. map (\<lambda>j. ((i, j), i + (i + j) mod 3)) (map int [0..<n])) (map int [0..<n])))) (i, j) w) = Inr (i + (i + j) mod 3)"
    using k_dict [of i' n j'] by (simp add: fst_getitem)
qed

lemma constraints_gen_dict:
  assumes "map var_index vs = [0..<n]"
  shows "fst (mapM (\<lambda>i. bind (mapM (\<lambda>j. getitem (dict_of (concat (map (\<lambda>i. map (\<lambda>j. ((i, j), i + (i + j) mod 3)) (map int [0..<n])) (map int [0..<n])))) (i, j)) (map int [0..<n]))
                       (\<lambda>cs. bind (scal_prod never vs cs) (\<lambda>e. expr_ge never e i))) (map int [0..<n]) w) =
         Inr (map (\<lambda>i. \<lparr>ct_lhs = nonzero (map (\<lambda>j. (j, i + (i + int j) mod 3)) [0..<n]), ct_sense = GE,
                        ct_rhs = i, ct_name = None\<rparr>) (map int [0..<n]))"
  by (rule fst_mapM) (simp add: fst_bind coefs_row zip_index_coefs [OF assms] collect_scalar del: map_map set_map)

lemma build3_never:
  "fst (build_bench_model3 never sz w) =
     Inr (built_model Model_class ''bench3'' False None
            (\<lambda>i. nonzero (map (\<lambda>j. (j, int i + (int i + int j) mod 3)) [0..<nat sz]))
            (map (\<lambda>k. (k, int k + 1)) [0..<nat sz]) (nat sz))"
  unfolding build_bench_model3_def py_range_nat
  apply (simp add: fst_bind Let_def fst_binary_var_list_never fst_binary_var_dict_never index_binary_vars length_binary_vars zip_index_coefs zip_range_coefs collect_scalar foldl_scalar nonzero_objective constraints_gen_dict del: map_map)
  apply (simp add: built_model_def binary_vars_range given_name_def named_def zip_map1 zip_map2 zip_same_conv_map comp_def)
  done

lemma loop21:
  assumes "map var_index vs = [0..<n]"
  shows "fst (for_each (map int [0..<n]) m (\<lambda>i m.
           bind (mapM (\<lambda>j. getitem (dict_of (concat (map (\<lambda>i. map (\<lambda>j. ((i, j), i + (i + j) mod 3)) (map int [0..<n])) (map int [0..<n])))) (i, j)) (map int [0..<n])) (\<lambda>cs.
           bind (scal_prod never vs cs) (\<lambda>e.
           bind (expr_ge never e i) (\<lambda>ct.
           add never m ct (nm i))))) w) =
         Inr (m\<lparr>cts := cts m @ map (\<lambda>i. named m \<lparr>ct_lhs = nonzero (map (\<lambda>j. (j, i + (i + int j) mod 3)) [0..<n]),
                  ct_sense = GE, ct_rhs = i, ct_name = None\<rparr> (nm i)) (map int [0..<n])\<rparr>)"
  by (rule for_each_add) (simp add: fst_bind coefs_row zip_index_coefs [OF assms] collect_scalar del: map_map set_map)

lemma build21_never:
  "fst (build_bench_model21 never sz w) =
     Inr (built_model Model_class ''bench2.1'' False None
            (\<lambda>i. nonzero (map (\<lambda>j. (j, int i + (int i + int j) mod 3)) [0..<nat sz]))
            (map (\<lambda>k. (k, int k + 1)) [0..<nat sz]) (nat sz))"
  unfolding build_bench_model21_def py_range_nat
  apply (simp add: fst_bind Let_def fst_binary_var_list_never fst_binary_var_dict_never index_binary_vars length_binary_vars zip_index_coefs zip_range_coefs collect_scalar foldl_scalar nonzero_objective loop21 del: map_map)
  apply (simp add: built_model_def binary_vars_range given_name_def named_def zip_map1 zip_map2 zip_same_conv_map comp_def)
  done

lemma all_items:
  assumes "length vs = n"
  shows "fst (mapM (\<lambda>i. getitem (dict_of (zip (map int [0..<n]) vs)) i) (map int [0..<n]) w) = Inr vs"
proof -
  have "fst (mapM (\<lambda>i. getitem (dict_of (zip (map int [0..<n]) vs)) i) (map int [0..<n]) w) =
          Inr (map (\<lambda>i. vs ! nat i) (map int [0..<n]))"
    by (rule fst_mapM) (use assms in \<open>auto simp: fst_getitem dict_of_zip_range\<close>)
  also have "map (\<lambda>i. vs ! nat i) (map int [0..<n]) = vs"
    unfolding assms [symmetric] by (simp add: comp_def map_nth)
  finally show ?thesis .
qed

lemma loop2:
  assumes "map var_index vs = [0..<n]" "length vs = n"
  shows "fst (for_each (map int [0..<n]) m (\<lambda>i m.
           bind (mapM (\<lambda>i1. getitem (dict_of (zip (map int [0..<n]) vs)) i1) (map int [0..<n])) (\<lambda>vs.
           bind (mapM (\<lambda>j. getitem (dict_of (concat (map (\<lambda>i. map (\<lambda>j. ((i, j), i + (i + j) mod 3)) (map int [0..<n])) (map int [0..<n])))) (i, j)) (map int [0..<n])) (\<lambda>cs.
           bind (scal_prod never vs cs) (\<lambda>e.
           bind (expr_ge never e i) (\<lambda>ct.
           add never m ct (nm i)))))) w) =
         Inr (m\<lparr>cts := cts m @ map (\<lambda>i. named m \<lparr>ct_lhs = nonzero (map (\<lambda>j. (j, i + (i + int j) mod 3)) [0..<n]),
                  ct_sense = GE, ct_rhs = i, ct_name = None\<rparr> (nm i)) (map int [0..<n])\<rparr>)"
  by (rule for_each_add)
    (simp add: fst_bind coefs_row all_items [OF assms(2)] zip_index_coefs [OF assms(1)] collect_scalar del: map_map set_map)

lemma build2_never:
  "fst (build_bench_model2 never sz w) =
     Inr (built_model Model_class ''bench2'' False None
            (\<lambda>i. nonzero (map (\<lambda>j. (j, int i + (int i + int j) mod 3)) [0..<nat sz]))
            (map (\<lambda>k. (k, int k + 1)) [0..<nat sz]) (nat sz))"
  unfolding build_bench_model2_def py_range_nat
  apply (simp add: fst_bind Let_def fst_binary_var_list_never fst_binary_var_dict_never index_binary_vars length_binary_vars zip_index_coefs zip_range_coefs collect_scalar foldl_scalar nonzero_objective loop2 all_items del: map_map)
  apply (simp add: built_model_def binary_vars_range given_name_def named_def zip_map1 zip_map2 zip_same_conv_map comp_def)
  done


lemma terms_row:
  assumes "length vs = n" "map var_index vs = [0..<n]" "i \<in> set (map int [0..<n])"
  shows "fst (mapM (\<lambda>j. bind (getitem (dict_of (zip (map int [0..<n]) vs)) i) (\<lambda>y.
                       bind (getitem (dict_of (concat (map (\<lambda>i. map (\<lambda>j. ((i, j), i + (i + j) mod 3)) (map int [0..<n])) (map int [0..<n])))) (i, j)) (\<lambda>c.
                       var_times never y c))) (map int [0..<n]) w) =
         Inr (map (\<lambda>j. if i + (i + j) mod 3 = 0 then [] else [(nat i, i + (i + j) mod 3)]) (map int [0..<n]))"
proof (rule fst_mapM)
  fix j w assume "j \<in> set (map int [0..<n])"
  with assms(3) obtain i' j' where ij: "i = int i'" "i' < n" "j = int j'" "j' < n"
    by auto
  have "var_index (vs ! i') = i'"
    using assms(1,2) ij(2) by (metis nth_map nth_upt add_0)
  then show "fst (bind (getitem (dict_of (zip (map int [0..<n]) vs)) i) (\<lambda>y.
                       bind (getitem (dict_of (concat (map (\<lambda>i. map (\<lambda>j. ((i, j), i + (i + j) mod 3)) (map int [0..<n])) (map int [0..<n])))) (i, j)) (\<lambda>c.
                       var_times never y c)) w) =
               Inr (if i + (i + j) mod 3 = 0 then [] else [(nat i, i + (i + j) mod 3)])"
    using k_dict [of i' n j'] dict_of_zip_range [OF assms(1), of i'] ij
    by (simp add: fst_bind fst_getitem)
qed

lemma row_sum:
  assumes "0 \<le> i"
  shows "foldl add_term []
           (concat (map (\<lambda>j. if i + (i + j) mod 3 = 0 then [] else [(v, i + (i + j) mod 3)]) js)) =
         (if sum_list (map (\<lambda>j. i + (i + j) mod 3) js) = 0 then []
          else [(v, sum_list (map (\<lambda>j. i + (i + j) mod 3) js))])"
  by (rule sum_terms_one_variable) (use assms in simp)

lemma loop1:
  assumes "length vs = n" "map var_index vs = [0..<n]"
  shows "fst (for_each (map int [0..<n]) m (\<lambda>i m.
        bind (mapM (\<lambda>j. bind (getitem (dict_of (zip (map int [0..<n]) vs)) i) (\<lambda>y.
                       bind (getitem (dict_of (concat (map (\<lambda>i. map (\<lambda>j. ((i, j), i + (i + j) mod 3)) (map int [0..<n])) (map int [0..<n])))) (i, j)) (\<lambda>c.
                var_times never y c))) (map int [0..<n])) (\<lambda>terms.
        bind (sum_exprs never terms) (\<lambda>e.
        bind (expr_ge never e i) (\<lambda>ct.
        add never m ct (nm i))))) w) =
       Inr (m\<lparr>cts := cts m @ map (\<lambda>i. named m
              \<lparr>ct_lhs = (if sum_list (map (\<lambda>j. i + (i + j) mod 3) (map int [0..<n])) = 0 then []
                         else [(nat i, sum_list (map (\<lambda>j. i + (i + j) mod 3) (map int [0..<n])))]),
               ct_sense = GE, ct_rhs = i, ct_name = None\<rparr> (nm i)) (map int [0..<n])\<rparr>)"
proof (rule for_each_add)
  fix i m w assume i: "i \<in> set (map int [0..<n])"
  then have "0 \<le> i"
    by auto
  then show "fst (bind (mapM (\<lambda>j. bind (getitem (dict_of (zip (map int [0..<n]) vs)) i) (\<lambda>y.
                       bind (getitem (dict_of (concat (map (\<lambda>i. map (\<lambda>j. ((i, j), i + (i + j) mod 3)) (map int [0..<n])) (map int [0..<n])))) (i, j)) (\<lambda>c.
                var_times never y c))) (map int [0..<n])) (\<lambda>terms.
        bind (sum_exprs never terms) (\<lambda>e.
        bind (expr_ge never e i) (\<lambda>ct.
        add never m ct (nm i)))) w) =
      Inr (m\<lparr>cts := cts m @ [named m
              \<lparr>ct_lhs = (if sum_list (map (\<lambda>j. i + (i + j) mod 3) (map int [0..<n])) = 0 then []
                         else [(nat i, sum_list (map (\<lambda>j. i + (i + j) mod 3) (map int [0..<n])))]),
               ct_sense = GE, ct_rhs = i, ct_name = None\<rparr> (nm i)]\<rparr>)"
    by (simp add: fst_bind terms_row [OF assms i] row_sum del: map_map set_map)
qed

lemma objective_terms:
  assumes "length vs = n" "map var_index vs = [0..<n]"
  shows "fst (mapM (\<lambda>k. bind (getitem (dict_of (zip (map int [0..<n]) vs)) k) (\<lambda>y.
                       bind (seq_getitem (map int [0..<n]) k) (\<lambda>c. var_times never y c))) (map int [0..<n]) w) =
         Inr (map (\<lambda>k. if k = 0 then [] else [(nat k, k)]) (map int [0..<n]))"
proof (rule fst_mapM)
  fix k w assume "k \<in> set (map int [0..<n])"
  then obtain k' where k: "k = int k'" "k' < n"
    by auto
  have "var_index (vs ! k') = k'"
    using assms k(2) by (metis nth_map nth_upt add_0)
  then show "fst (bind (getitem (dict_of (zip (map int [0..<n]) vs)) k) (\<lambda>y.
                       bind (seq_getitem (map int [0..<n]) k) (\<lambda>c. var_times never y c)) w) =
               Inr (if k = 0 then [] else [(nat k, k)])"
    using dict_of_zip_range [OF assms(1), of k'] k
    by (simp add: fst_bind fst_getitem seq_getitem_def fst_return)
qed

lemma objective_sum:
  "foldl add_term [] (concat (map (\<lambda>k. if k = 0 then [] else [(nat k, k)]) (map int [0..<n]))) =
     nonzero (map (\<lambda>k. (k, int k)) [0..<n])"
proof -
  have "concat (map (\<lambda>k. if k = 0 then [] else [(nat k, k)]) (map int [0..<n])) =
          nonzero (map (\<lambda>k. (nat k, k)) (map int [0..<n]))"
    by (rule concat_nonzero_terms)
  also have "map (\<lambda>k. (nat k, k)) (map int [0..<n]) = map (\<lambda>k. (k, int k)) [0..<n]"
    by simp
  finally show ?thesis
    by (simp add: collect_scalar)
qed

lemma build1_never:
  "fst (build_bench_model1 never sz w) =
     Inr (built_model Model_class ''bench1'' False None
            (\<lambda>i. if sum_list (map (\<lambda>j. int i + (int i + int j) mod 3) [0..<nat sz]) = 0 then []
                 else [(i, sum_list (map (\<lambda>j. int i + (int i + int j) mod 3) [0..<nat sz]))])
            (nonzero (map (\<lambda>k. (k, int k)) [0..<nat sz])) (nat sz))"
  unfolding build_bench_model1_def py_range_nat
  apply (simp add: fst_bind Let_def fst_binary_var_dict_never loop1 objective_terms objective_sum length_binary_vars index_binary_vars del: map_map)
  apply (simp add: built_model_def binary_vars_range given_name_def named_def comp_def)
  done

section \<open>The models the builders return\<close>

lemma built_model_simps [simp]:
  "vars (built_model cls name ign chk lhs obj n) =
     map (\<lambda>p. \<lparr>var_index = p, var_name = (if ign then None else Some (''y_'' @ str_int (int p))), var_type = Binary\<rparr>) [0..<n]"
  "cts (built_model cls name ign chk lhs obj n) =
     map (\<lambda>i. \<lparr>ct_lhs = lhs i, ct_sense = GE, ct_rhs = int i,
               ct_name = (if ign then None else Some (''ct_'' @ str_int (int i)))\<rparr>) [0..<n]"
  "objective (built_model cls name ign chk lhs obj n) = Some (Minimize, obj)"
  "ignore_names (built_model cls name ign chk lhs obj n) = ign"
  by (simp_all add: built_model_def)

lemma coef_scalar: "coef (map (\<lambda>j. (j, f j)) [0..<n]) v = (if v < n then f v else 0)"
proof (induction n)
  case 0
  show ?case by (simp add: coef_def)
next
  case (Suc n)
  then show ?case by (auto simp: coef_def less_Suc_eq)
qed

lemma coef_nonzero: "coef (nonzero ts) v = coef ts v"
  by (induction ts) (auto simp: coef_def nonzero_def)

lemma mentions_nonzero_scalar:
  "mentions (nonzero (map (\<lambda>j. (j, f j)) [0..<n])) v \<longleftrightarrow> v < n \<and> f v \<noteq> 0"
  by (auto simp: mentions_def nonzero_def image_iff)

lemma set_nonzero: "set (nonzero ts) \<subseteq> set ts"
  by (auto simp: nonzero_def)

lemma scal_prod_builders_never:
  assumes "bf \<in> set scal_prod_builders"
  shows "\<exists>cls name ign chk. \<forall>w. fst (bf never sz w) =
     Inr (built_model cls name ign chk
            (\<lambda>i. nonzero (map (\<lambda>j. (j, int i + (int i + int j) mod 3)) [0..<nat sz]))
            (map (\<lambda>k. (k, int k + 1)) [0..<nat sz]) (nat sz))"
  using assms build2_never build21_never build3_never build4_never build5_never build6_never build7_never
  unfolding scal_prod_builders_def by fastforce

lemma all_builders_never:
  assumes "bf \<in> set all_builders"
  shows "\<exists>cls name ign chk lhs obj.
           (\<forall>w. fst (bf never sz w) = Inr (built_model cls name ign chk lhs obj (nat sz))) \<and>
           (\<forall>i<nat sz. list_all (\<lambda>t. fst t < nat sz) (lhs i)) \<and> list_all (\<lambda>t. fst t < nat sz) obj"
proof (cases "bf = build_bench_model1")
  case True
  have obj: "list_all (\<lambda>t. fst t < nat sz) (nonzero (map (\<lambda>k. (k, int k)) [0..<nat sz]))"
    using set_nonzero [of "map (\<lambda>k. (k, int k)) [0..<nat sz]"] by (auto simp: list_all_iff)
  show ?thesis
    unfolding True build1_never
    by (intro exI conjI allI, rule refl) (simp_all add: obj)
next
  case False
  with assms have "bf \<in> set scal_prod_builders"
    by (simp add: all_builders_def)
  from scal_prod_builders_never [OF this, of sz] obtain cls name ign chk where
    m: "\<And>w. fst (bf never sz w) =
     Inr (built_model cls name ign chk
            (\<lambda>i. nonzero (map (\<lambda>j. (j, int i + (int i + int j) mod 3)) [0..<nat sz]))
            (map (\<lambda>k. (k, int k + 1)) [0..<nat sz]) (nat sz))"
    by blast
  have lhs: "list_all (\<lambda>t. fst t < nat sz) (nonzero (map (\<lambda>j. (j, int i + (int i + int j) mod 3)) [0..<nat sz]))" for i
    using set_nonzero [of "map (\<lambda>j. (j, int i + (int i + int j) mod 3)) [0..<nat sz]"]
    by (auto simp: list_all_iff)
  have obj: "list_all (\<lambda>t. fst t < nat sz) (map (\<lambda>k. (k, int k + 1)) [0..<nat sz])"
    by (simp add: list_all_iff)
  show ?thesis
    unfolding m by (intro exI conjI allI, rule refl) (simp_all add: lhs obj)
qed

text \<open>
  C4. For every size \<open>N \<ge> 1\<close>, every benchmark builder (run against a library that raises
  nothing, from any state of the notebook) returns a model with exactly \<open>N\<close> variables,
  all binary, indexed \<open>0, ..., N - 1\<close>, exactly \<open>N\<close> linear constraints over these
  variables, and a linear objective over them that is to be minimized.
\<close>

theorem builders_variables_constraints_objective:
  assumes "1 \<le> sz" and "bf \<in> set all_builders"
  shows "\<exists>m e. (\<forall>w. fst (bf never sz w) = Inr m) \<and>
           int (length (vars m)) = sz \<and> map var_index (vars m) = [0..<nat sz] \<and>
           list_all (\<lambda>v. var_type v = Binary) (vars m) \<and>
           int (length (cts m)) = sz \<and>
           list_all (\<lambda>c. list_all (\<lambda>t. fst t < nat sz) (ct_lhs c)) (cts m) \<and>
           objective m = Some (Minimize, e) \<and> list_all (\<lambda>t. fst t < nat sz) e"
proof -
  from all_builders_never [OF assms(2), of sz] obtain cls name ign chk lhs obj where
    m: "\<And>w. fst (bf never sz w) = Inr (built_model cls name ign chk lhs obj (nat sz))"
    and lhs: "\<And>i. i < nat sz \<Longrightarrow> list_all (\<lambda>t. fst t < nat sz) (lhs i)" and obj: "list_all (\<lambda>t. fst t < nat sz) obj"
    by blast
  show ?thesis
  proof (intro exI conjI allI)
    show "fst (bf never sz w) = Inr (built_model cls name ign chk lhs obj (nat sz))" for w
      by (rule m)
    show "objective (built_model cls name ign chk lhs obj (nat sz)) = Some (Minimize, obj)"
      by simp
    show "list_all (\<lambda>t. fst t < nat sz) obj"
      by (rule obj)
    show "list_all (\<lambda>c. list_all (\<lambda>t. fst t < nat sz) (ct_lhs c)) (cts (built_model cls name ign chk lhs obj (nat sz)))"
      using lhs by (simp add: list_all_iff)
  qed (use assms(1) in \<open>simp_all add: list_all_iff comp_def map_idI\<close>)
qed

theorem builders_variables_constraints_objective_witness:
  "\<exists>m e. (\<forall>w. fst (build_bench_model4 never 3 w) = Inr m) \<and>
           int (length (vars m)) = 3 \<and> map var_index (vars m) = [0..<nat 3] \<and>
           list_all (\<lambda>v. var_type v = Binary) (vars m) \<and>
           int (length (cts m)) = 3 \<and>
           list_all (\<lambda>c. list_all (\<lambda>t. fst t < nat 3) (ct_lhs c)) (cts m) \<and>
           objective m = Some (Minimize, e) \<and> list_all (\<lambda>t. fst t < nat 3) e"
  using builders_variables_constraints_objective [of 3 build_bench_model4]
  by (simp add: all_builders_def scal_prod_builders_def)

lemma coef_one_term: "coef (if S = 0 then [] else [(i, S)]) v = (if v = i then S else 0)"
  by (simp add: coef_def)

lemma mentions_one_term: "mentions (if S = 0 then [] else [(i, S)]) v \<longleftrightarrow> v = i \<and> S \<noteq> 0"
  by (simp add: mentions_def)

lemma row_sum_zero:
  assumes "i < n"
  shows "(\<Sum>j = 0..<n. int i + (int i + int j) mod 3) = 0 \<longleftrightarrow> n = 1"
proof
  assume "n = 1"
  with assms show "(\<Sum>j = 0..<n. int i + (int i + int j) mod 3) = 0"
    by simp
next
  assume "(\<Sum>j = 0..<n. int i + (int i + int j) mod 3) = 0"
  then have all: "\<forall>j \<in> {0..<n}. int i + (int i + int j) mod 3 = 0"
    by (subst (asm) sum_nonneg_eq_0_iff) auto
  from assms have "0 \<in> {0..<n}"
    by auto
  with all have "int i + (int i + int 0) mod 3 = 0"
    by blast
  then have i: "i = 0"
    by presburger
  show "n = 1"
  proof (rule ccontr)
    assume "n \<noteq> 1"
    with assms have "1 \<in> {0..<n}"
      by auto
    with all have "int i + (int i + int 1) mod 3 = 0"
      by blast
    with i show False
      by simp
  qed
qed

lemma scalar_coefficient_zero: "int i + (int i + int v) mod 3 = 0 \<longleftrightarrow> i = 0 \<and> v mod 3 = 0"
  by presburger


lemma model1_left_hand_side:
  assumes "i < nat sz"
  shows "\<exists>m. (\<forall>w. fst (build_bench_model1 never sz w) = Inr m) \<and>
              ct_name (cts m ! i) = Some (''ct_'' @ str_int (int i)) \<and>
              (\<forall>v. mentions (ct_lhs (cts m ! i)) v \<longleftrightarrow> v = i \<and> nat sz \<noteq> 1) \<and>
              (\<forall>v. coef (ct_lhs (cts m ! i)) v =
                 (if v = i then (\<Sum>j = 0..<nat sz. int i + (int i + int j) mod 3) else 0))"
proof -
  define S where "S = (\<Sum>j = 0..<nat sz. int i + (int i + int j) mod 3)"
  define m where "m = built_model Model_class ''bench1'' False None
            (\<lambda>i. if sum_list (map (\<lambda>j. int i + (int i + int j) mod 3) [0..<nat sz]) = 0 then []
                 else [(i, sum_list (map (\<lambda>j. int i + (int i + int j) mod 3) [0..<nat sz]))])
            (nonzero (map (\<lambda>k. (k, int k)) [0..<nat sz])) (nat sz)"
  have zero: "S = 0 \<longleftrightarrow> nat sz = 1"
    unfolding S_def by (rule row_sum_zero [OF assms])
  have lhs: "ct_lhs (cts m ! i) = (if S = 0 then [] else [(i, S)])"
    using assms by (simp add: m_def S_def interv_sum_list_conv_sum_set_nat)
  have nm: "ct_name (cts m ! i) = Some (''ct_'' @ str_int (int i))"
    using assms by (simp add: m_def)
  have ment: "mentions (ct_lhs (cts m ! i)) v \<longleftrightarrow> v = i \<and> nat sz \<noteq> 1" for v
    unfolding lhs using zero by (simp add: mentions_def)
  have co: "coef (ct_lhs (cts m ! i)) v = (if v = i then S else 0)" for v
    unfolding lhs by (rule coef_one_term)
  have run: "\<forall>w. fst (build_bench_model1 never sz w) = Inr m"
    unfolding m_def by (simp only: build1_never simp_thms)
  show ?thesis
    apply (rule exI [of _ m])
    apply (fold S_def)
    apply (intro conjI allI)
       apply (rule run [rule_format])
      apply (rule nm)
     apply (rule ment)
    apply (rule co)
    done
qed

lemma scalar_left_hand_side:
  assumes "i < nat sz" and "bf \<in> set scal_prod_builders"
  shows "\<exists>m. (\<forall>w. fst (bf never sz w) = Inr m) \<and>
              (\<forall>v. mentions (ct_lhs (cts m ! i)) v \<longleftrightarrow> v < nat sz \<and> (0 < i \<or> v mod 3 \<noteq> 0)) \<and>
              (\<forall>j<nat sz. coef (ct_lhs (cts m ! i)) j = int i + (int i + int j) mod 3) \<and>
              (0 < i \<longrightarrow> map fst (ct_lhs (cts m ! i)) = [0..<nat sz])"
proof -
  from scal_prod_builders_never [OF assms(2), of sz] obtain cls name ign chk where
    run: "\<forall>w. fst (bf never sz w) =
     Inr (built_model cls name ign chk
            (\<lambda>i. nonzero (map (\<lambda>j. (j, int i + (int i + int j) mod 3)) [0..<nat sz]))
            (map (\<lambda>k. (k, int k + 1)) [0..<nat sz]) (nat sz))"
    by blast
  define m where "m = built_model cls name ign chk
            (\<lambda>i. nonzero (map (\<lambda>j. (j, int i + (int i + int j) mod 3)) [0..<nat sz]))
            (map (\<lambda>k. (k, int k + 1)) [0..<nat sz]) (nat sz)"
  have lhs: "ct_lhs (cts m ! i) = nonzero (map (\<lambda>j. (j, int i + (int i + int j) mod 3)) [0..<nat sz])"
    using assms(1) by (simp add: m_def)
  have all: "nonzero (map (\<lambda>j. (j, int i + (int i + int j) mod 3)) [0..<nat sz]) =
      map (\<lambda>j. (j, int i + (int i + int j) mod 3)) [0..<nat sz]" if "0 < i"
    by (rule nonzero_all) (use that in \<open>auto simp: scalar_coefficient_zero\<close>)
  have ment: "mentions (ct_lhs (cts m ! i)) v \<longleftrightarrow> v < nat sz \<and> (0 < i \<or> v mod 3 \<noteq> 0)" for v
    unfolding lhs by (auto simp: mentions_nonzero_scalar scalar_coefficient_zero)
  have co: "coef (ct_lhs (cts m ! i)) j = int i + (int i + int j) mod 3" if "j < nat sz" for j
    unfolding lhs using that by (simp add: coef_nonzero coef_scalar)
  have ord: "map fst (ct_lhs (cts m ! i)) = [0..<nat sz]" if "0 < i"
    unfolding lhs all [OF that] by (simp add: comp_def map_idI)
  show ?thesis
    apply (rule exI [of _ m])
    apply (intro conjI allI impI)
       apply (simp only: m_def run [rule_format])
      apply (rule ment)
     apply (erule co)
    apply (erule ord)
    done
qed

text \<open>
  C9, as the code has it. In the model \<open>build_bench_model1\<close> returns, for every size and
  every \<open>i\<close> in \<open>0, ..., N - 1\<close>, the constraint at position \<open>i\<close> is named \<open>ct_i\<close> and mentions
  no variable but \<open>y_i\<close>: its left-hand side is \<open>y_i\<close> with the coefficient
  \<open>\<Sum>j<N. i + (i + j) mod 3\<close>, and it mentions \<open>y_i\<close> when that coefficient is not 0, which
  is always but for \<open>N = 1\<close>. In the model of every builder that hands the library scalar
  products, the left-hand side of constraint \<open>i\<close> has the coefficient \<open>i + (i + j) mod 3\<close> on
  \<open>y_j\<close> for every \<open>j < N\<close>, and mentions the variables whose coefficient is not 0: all of
  \<open>y_0, ..., y_(N-1)\<close>, in order, when \<open>i \<ge> 1\<close>, and those \<open>y_j\<close> with \<open>j mod 3 \<noteq> 0\<close> when \<open>i = 0\<close>.
\<close>

theorem constraint_left_hand_sides:
  assumes "i < nat sz"
  shows "(\<exists>m. (\<forall>w. fst (build_bench_model1 never sz w) = Inr m) \<and>
              ct_name (cts m ! i) = Some (''ct_'' @ str_int (int i)) \<and>
              (\<forall>v. mentions (ct_lhs (cts m ! i)) v \<longleftrightarrow> v = i \<and> nat sz \<noteq> 1) \<and>
              (\<forall>v. coef (ct_lhs (cts m ! i)) v =
                 (if v = i then (\<Sum>j = 0..<nat sz. int i + (int i + int j) mod 3) else 0))) \<and>
         (\<forall>bf \<in> set scal_prod_builders.
            \<exists>m. (\<forall>w. fst (bf never sz w) = Inr m) \<and>
              (\<forall>v. mentions (ct_lhs (cts m ! i)) v \<longleftrightarrow> v < nat sz \<and> (0 < i \<or> v mod 3 \<noteq> 0)) \<and>
              (\<forall>j<nat sz. coef (ct_lhs (cts m ! i)) j = int i + (int i + int j) mod 3) \<and>
              (0 < i \<longrightarrow> map fst (ct_lhs (cts m ! i)) = [0..<nat sz]))"
  apply (rule conjI)
   apply (rule model1_left_hand_side [OF assms])
  apply (rule ballI)
  apply (rule scalar_left_hand_side [OF assms])
  apply assumption
  done

theorem constraint_left_hand_sides_witness:
  "(1::nat) < nat 3 \<and>
   (\<exists>m. (\<forall>w. fst (build_bench_model1 never 3 w) = Inr m) \<and>
        ct_name (cts m ! 1) = Some ''ct_1'' \<and>
        mentions (ct_lhs (cts m ! 1)) 1 \<and> \<not> mentions (ct_lhs (cts m ! 1)) 0 \<and>
        coef (ct_lhs (cts m ! 1)) 1 = 6 \<and> coef (ct_lhs (cts m ! 1)) 2 = 0) \<and>
   (\<exists>m. (\<forall>w. fst (build_bench_model7 never 3 w) = Inr m) \<and>
        mentions (ct_lhs (cts m ! 1)) 0 \<and> \<not> mentions (ct_lhs (cts m ! 1)) 3 \<and>
        coef (ct_lhs (cts m ! 1)) 0 = 2 \<and> coef (ct_lhs (cts m ! 1)) 1 = 3 \<and>
        coef (ct_lhs (cts m ! 1)) 2 = 1 \<and>
        map fst (ct_lhs (cts m ! 1)) = [0, 1, 2])"
proof -
  have three: "[0..<nat 3] = [0, 1, 2]"
    by (simp add: upt_conv_Cons)
  have name: "''ct_'' @ str_int (int 1) = ''ct_1''"
    by code_simp
  have total: "(\<Sum>j = 0..<nat 3. int 1 + (int 1 + int j) mod 3) = 6"
    by (simp add: numeral_3_eq_3)
  have size: "(1::nat) < nat 3"
    by simp
  have seventh: "build_bench_model7 \<in> set scal_prod_builders"
    by (simp add: scal_prod_builders_def)
  note both = constraint_left_hand_sides [OF size]
  from conjunct1 [OF both] obtain m1 where
    r1: "\<forall>w. fst (build_bench_model1 never 3 w) = Inr m1" and
    n1: "ct_name (cts m1 ! 1) = Some (''ct_'' @ str_int (int 1))" and
    v1: "\<forall>v. mentions (ct_lhs (cts m1 ! 1)) v \<longleftrightarrow> v = 1 \<and> nat 3 \<noteq> 1" and
    c1: "\<forall>v. coef (ct_lhs (cts m1 ! 1)) v =
                 (if v = 1 then (\<Sum>j = 0..<nat 3. int 1 + (int 1 + int j) mod 3) else 0)"
    by blast
  from bspec [OF conjunct2 [OF both] seventh] obtain m7 where
    r7: "\<forall>w. fst (build_bench_model7 never 3 w) = Inr m7" and
    v7: "\<forall>v. mentions (ct_lhs (cts m7 ! 1)) v \<longleftrightarrow> v < nat 3 \<and> (0 < (1::nat) \<or> v mod 3 \<noteq> 0)" and
    c7: "\<forall>j<nat 3. coef (ct_lhs (cts m7 ! 1)) j = int 1 + (int 1 + int j) mod 3" and
    o7: "0 < (1::nat) \<longrightarrow> map fst (ct_lhs (cts m7 ! 1)) = [0..<nat 3]"
    by (elim exE conjE) (rule that)
  have a1: "ct_name (cts m1 ! 1) = Some ''ct_1''"
    using n1 unfolding name .
  have a2: "mentions (ct_lhs (cts m1 ! 1)) 1"
    unfolding v1 [rule_format] by simp
  have a3: "\<not> mentions (ct_lhs (cts m1 ! 1)) 0"
    unfolding v1 [rule_format] by simp
  have a4: "coef (ct_lhs (cts m1 ! 1)) 1 = 6"
    unfolding c1 [rule_format] total by simp
  have a5: "coef (ct_lhs (cts m1 ! 1)) 2 = 0"
    unfolding c1 [rule_format] by simp
  have b1: "mentions (ct_lhs (cts m7 ! 1)) 0"
    unfolding v7 [rule_format] by simp
  have b2: "\<not> mentions (ct_lhs (cts m7 ! 1)) 3"
    unfolding v7 [rule_format] by simp
  have b3: "coef (ct_lhs (cts m7 ! 1)) 0 = 2"
    using c7 [rule_format, of 0] by simp
  have b4: "coef (ct_lhs (cts m7 ! 1)) 1 = 3"
    using c7 [rule_format, of 1] by simp
  have b5: "coef (ct_lhs (cts m7 ! 1)) 2 = 1"
    using c7 [rule_format, of 2] by simp
  have b6: "map fst (ct_lhs (cts m7 ! 1)) = [0, 1, 2]"
    using o7 unfolding three by simp
  show ?thesis
    apply (intro conjI)
      apply (rule size)
     apply (rule exI [of _ m1])
     apply (intro conjI)
          apply (rule r1)
         apply (rule a1)
        apply (rule a2)
       apply (rule a3)
      apply (rule a4)
     apply (rule a5)
    apply (rule exI [of _ m7])
    apply (intro conjI)
          apply (rule r7)
         apply (rule b1)
        apply (rule b2)
       apply (rule b3)
      apply (rule b4)
     apply (rule b5)
    apply (rule b6)
    done
qed

text \<open>
  At size 3 the model \<open>build_bench_model2\<close> returns has three constraints, and the first
  of them is \<open>y_1 + 2 y_2 \<ge> 0\<close>: the coefficient \<open>0 + (0 + 0) mod 3\<close> of \<open>y_0\<close> is 0, and the
  scalar product leaves \<open>y_0\<close> out. So not every left-hand side of the builders that hand
  the library scalar products mentions all the variables.
\<close>

theorem first_scalar_row_skips_a_variable:
  "\<exists>m. (\<forall>w. fst (build_bench_model2 never 3 w) = Inr m) \<and>
       int (length (cts m)) = 3 \<and>
       ct_lhs (cts m ! 0) = [(1, 1), (2, 2)] \<and>
       \<not> mentions (ct_lhs (cts m ! 0)) 0"
proof -
  have three: "[0..<3] = [0, 1, 2]"
    by (simp add: upt_conv_Cons)
  show ?thesis
    apply (rule exI)
    apply (intro conjI allI)
       apply (rule build2_never)
      apply simp
     apply (simp add: three nonzero_def)
    apply (simp add: three nonzero_def mentions_def)
    done
qed

lemma math_model_built:
  "math_model (built_model cls name ign chk lhs obj n) =
     (map (\<lambda>p. Binary) [0..<n], map (\<lambda>i. (row n (lhs i), GE, int i)) [0..<n], Some (Minimize, row n obj))"
  by (simp add: math_model_def comp_def)

text \<open>
  C10. In the model \<open>build_bench_model1\<close> returns, for every size, the objective is to be
  minimized and the coefficient of \<open>y_k\<close> in it is \<open>k\<close> (the value \<open>rsize[k]\<close>; the list
  \<open>rsize1\<close> of the values \<open>k + 1\<close> takes no part in it), so \<open>y_0\<close> has coefficient 0; in the
  model of every builder that hands the library scalar products the coefficient of \<open>y_k\<close>
  is \<open>k + 1\<close>.
\<close>

theorem objective_coefficients:
  assumes "k < nat sz"
  shows "(\<exists>m e. (\<forall>w. fst (build_bench_model1 never sz w) = Inr m) \<and>
              objective m = Some (Minimize, e) \<and> coef e k = int k \<and> coef e 0 = 0) \<and>
         (\<forall>bf \<in> set scal_prod_builders.
            \<exists>m e. (\<forall>w. fst (bf never sz w) = Inr m) \<and>
              objective m = Some (Minimize, e) \<and> coef e k = int k + 1)"
proof (intro conjI ballI)
  show "\<exists>m e. (\<forall>w. fst (build_bench_model1 never sz w) = Inr m) \<and>
              objective m = Some (Minimize, e) \<and> coef e k = int k \<and> coef e 0 = 0"
    using assms by (simp add: build1_never coef_nonzero coef_scalar)
next
  fix bf assume "bf \<in> set scal_prod_builders"
  from scal_prod_builders_never [OF this, of sz] obtain cls name ign chk where
    m: "\<And>w. fst (bf never sz w) =
     Inr (built_model cls name ign chk
            (\<lambda>i. nonzero (map (\<lambda>j. (j, int i + (int i + int j) mod 3)) [0..<nat sz]))
            (map (\<lambda>k. (k, int k + 1)) [0..<nat sz]) (nat sz))"
    by blast
  show "\<exists>m e. (\<forall>w. fst (bf never sz w) = Inr m) \<and>
              objective m = Some (Minimize, e) \<and> coef e k = int k + 1"
    using assms by (simp add: m coef_scalar)
qed

theorem objective_coefficients_witness:
  "(\<exists>m e. (\<forall>w. fst (build_bench_model1 never 3 w) = Inr m) \<and>
        objective m = Some (Minimize, e) \<and> coef e 2 = 2 \<and> coef e 0 = 0) \<and>
   (\<exists>m e. (\<forall>w. fst (build_bench_model2 never 3 w) = Inr m) \<and>
        objective m = Some (Minimize, e) \<and> coef e 2 = 3)"
proof -
  have *: "(2::nat) < nat 3" by simp
  have mem: "build_bench_model2 \<in> set scal_prod_builders"
    by (simp add: scal_prod_builders_def)
  note both = objective_coefficients [OF *]
  from conjunct1 [OF both] have a: "\<exists>m e. (\<forall>w. fst (build_bench_model1 never 3 w) = Inr m) \<and>
        objective m = Some (Minimize, e) \<and> coef e 2 = 2 \<and> coef e 0 = 0"
    by simp
  from bspec [OF conjunct2 [OF both] mem] have b: "\<exists>m e. (\<forall>w. fst (build_bench_model2 never 3 w) = Inr m) \<and>
        objective m = Some (Minimize, e) \<and> coef e 2 = 3"
    by simp
  from a b show ?thesis
    by (rule conjI)
qed

text \<open>
  The builders that hand the library scalar products all state one mathematical model,
  for every size and from every state of the notebook.
\<close>

theorem scal_prod_builders_same_model:
  assumes "bf \<in> set scal_prod_builders" and "bg \<in> set scal_prod_builders"
  shows "map_sum id math_model (fst (bf never sz w)) = map_sum id math_model (fst (bg never sz w'))"
  using scal_prod_builders_never [OF assms(1), of sz] scal_prod_builders_never [OF assms(2), of sz]
  by (auto simp: math_model_built)

theorem scal_prod_builders_same_model_witness:
  "map_sum id math_model (fst (build_bench_model2 never 1000 (fresh (\<lambda>k. 0)))) =
   map_sum id math_model (fst (build_bench_model7 never 1000 (fresh (\<lambda>k. real k))))"
  using scal_prod_builders_same_model [of build_bench_model2 build_bench_model7 1000]
  by (simp add: scal_prod_builders_def)

text \<open>
  C1, at size 2. \<open>build_bench_model1\<close> and \<open>build_bench_model2\<close> do not state the same
  mathematical model: the rows of the constraints differ (\<open>[1, 0]\<close> and \<open>[0, 5]\<close> against
  \<open>[0, 1]\<close> and \<open>[2, 3]\<close>) and so do the rows of the objectives (\<open>[0, 1]\<close> against \<open>[1, 2]\<close>).
\<close>

theorem bench1_is_another_model:
  "map_sum id math_model (fst (build_bench_model1 never 2 w)) =
     Inr ([Binary, Binary], [([1, 0], GE, 0), ([0, 5], GE, 1)], Some (Minimize, [0, 1])) \<and>
   map_sum id math_model (fst (build_bench_model2 never 2 w)) =
     Inr ([Binary, Binary], [([0, 1], GE, 0), ([2, 3], GE, 1)], Some (Minimize, [1, 2]))"
proof -
  have two: "[0..<nat 2] = [0, 1]" "nat 2 = 2" "[0..<2] = [0, 1]"
    by (simp_all add: eval_nat_numeral)
  show ?thesis
    unfolding build1_never build2_never
    by (simp add: math_model_built two row_def coef_def nonzero_def)
qed

section \<open>Every builder is faithful to the library\<close>

lemma faithful_calls:
  "faithful L (new_model L cls name ign chk)"
  "faithful L (binary_var_dict L m keys name)"
  "faithful L (binary_var_list L m keys name)"
  "faithful L (var_times L v c)"
  "faithful L (sum_exprs L es)"
  "faithful L (scal_prod L vs cs)"
  "faithful L (scal_prod_vars_all_different L vs cs)"
  "faithful L (expr_ge L e i)"
  "faithful L (add L m ct nm)"
  "faithful L (add_constraints L m cl names)"
  "faithful L (minimize L m e)"
  "faithful L (model_end L m)"
  by (simp_all add: new_model_def binary_var_dict_def binary_var_list_def var_times_def
      sum_exprs_def scal_prod_def scal_prod_vars_all_different_def expr_ge_def add_def
      add_constraints_def minimize_def model_end_def Let_def faithful_lib)

lemma binary_var_dict_keys:
  assumes "\<forall>w. fst (binary_var_dict L m keys name w) = Inr (ys, m')" and "key \<in> set keys"
  shows "\<exists>v. ys key = Some v"
proof -
  from assms(1) have "ys = dict_of (zip keys (binary_vars m keys name))"
    by (simp add: binary_var_dict_def lib_def Let_def split: option.splits)
  then have "dom ys = set (map fst (zip keys (binary_vars m keys name)))"
    by (simp add: dom_dict_of)
  also have "\<dots> = set keys"
    by (simp only: map_fst_zip length_binary_vars)
  finally show ?thesis
    using assms(2) by blast
qed

lemma k_dict_keys:
  assumes "i \<in> set rs" and "j \<in> set rs"
  shows "\<exists>v. dict_of (concat (map (\<lambda>i. map (\<lambda>j. ((i, j), f i j)) rs) rs)) (i, j) = Some v"
proof -
  have "(i, j) \<in> dom (dict_of (concat (map (\<lambda>i. map (\<lambda>j. ((i, j), f i j)) rs) rs)))"
    unfolding dom_dict_of using assms by (force simp: image_iff)
  then show ?thesis
    by blast
qed

lemma faithful_build4: "faithful L (build_bench_model4 L sz)"
  unfolding build_bench_model4_def Let_def
  by (auto intro!: faithful_bind faithful_mapM faithful_calls)

lemma faithful_build5: "faithful L (build_bench_model5 L sz)"
  unfolding build_bench_model5_def Let_def
  by (auto intro!: faithful_bind faithful_mapM faithful_calls)

lemma faithful_build6: "faithful L (build_bench_model6 L sz)"
  unfolding build_bench_model6_def Let_def
  by (auto intro!: faithful_bind faithful_mapM faithful_calls)

lemma faithful_build7: "faithful L (build_bench_model7 L sz)"
  unfolding build_bench_model7_def Let_def
  by (auto intro!: faithful_bind faithful_mapM faithful_calls)

lemma faithful_build1: "faithful L (build_bench_model1 L sz)"
  unfolding build_bench_model1_def Let_def py_range_nat
  by (auto intro!: faithful_bind faithful_mapM faithful_for_each faithful_getitem
      faithful_seq_getitem faithful_calls k_dict_keys
      dest: binary_var_dict_keys simp del: map_map)

lemma faithful_build2: "faithful L (build_bench_model2 L sz)"
  unfolding build_bench_model2_def Let_def py_range_nat
  by (auto intro!: faithful_bind faithful_mapM faithful_for_each faithful_getitem
      faithful_calls k_dict_keys
      dest: binary_var_dict_keys simp del: map_map)

lemma faithful_build21: "faithful L (build_bench_model21 L sz)"
  unfolding build_bench_model21_def Let_def py_range_nat
  by (auto intro!: faithful_bind faithful_mapM faithful_for_each faithful_getitem
      faithful_calls k_dict_keys simp del: map_map)

lemma faithful_build3: "faithful L (build_bench_model3 L sz)"
  unfolding build_bench_model3_def Let_def py_range_nat
  by (auto intro!: faithful_bind faithful_mapM faithful_getitem
      faithful_calls k_dict_keys simp del: map_map)

lemma faithful_all_builders: "bf \<in> set all_builders \<Longrightarrow> faithful L (bf L sz)"
  using faithful_build1 faithful_build2 faithful_build21 faithful_build3 faithful_build4
    faithful_build5 faithful_build6 faithful_build7
  by (auto simp: all_builders_def scal_prod_builders_def)

section \<open>Properties of the scoped timer\<close>

lemma reads_append: "reads (es @ fs) = reads es + reads fs"
  by (induction es rule: reads.induct) simp_all

lemma printed_append: "printed (es @ fs) = printed es @ printed fs"
  by (induction es rule: printed.induct) simp_all

lemma lib_calls_append: "lib_calls (es @ fs) = lib_calls es @ lib_calls fs"
  by (induction es rule: lib_calls.induct) simp_all

lemma events_of_calls:
  "reads (map LibCall l) = 0" "printed (map LibCall l) = []" "lib_calls (map LibCall l) = l"
  by (induction l) simp_all

lemma ticks_events: "ticks (w\<lparr>events := events w @ es\<rparr>) = ticks w + reads es"
  by (simp add: ticks_def reads_append)

lemma out_events: "out (w\<lparr>events := events w @ es\<rparr>) = out w @ printed es"
  by (simp add: out_def printed_append)

lemma calls_events: "calls (w\<lparr>events := events w @ es\<rparr>) = calls w @ lib_calls es"
  by (simp add: calls_def lib_calls_append)

lemma timer_enter_eq:
  "timer_enter self w =
     (self\<lparr>start := clock w (ticks w)\<rparr>, self\<lparr>start := clock w (ticks w)\<rparr>,
      w\<lparr>events := events w @ [ClockRead (clock w (ticks w))]\<rparr>)"
  by (simp add: timer_enter_def time_time_def Let_def)

lemma timer_exit_eq:
  "timer_exit self args w =
     (PyNone, self\<lparr>msecs := Some \<lceil>1000 * (clock w (ticks w) - start self)\<rceil>\<rparr>,
      w\<lparr>events := events w @
          [ClockRead (clock w (ticks w)),
           Printed (timer_message (msg self) \<lceil>1000 * (clock w (ticks w) - start self)\<rceil>)]\<rparr>)"
  by (simp add: timer_exit_def time_time_def print_def Let_def)

lemma with_ContextTimer_eq:
  assumes "body \<lparr>msg = message, start = clock w (ticks w), msecs = None\<rparr>
             (w\<lparr>events := events w @ [ClockRead (clock w (ticks w))]\<rparr>) = (r, w2)"
  shows "with_ContextTimer message body w =
     (case r of Inl e \<Rightarrow> Inl e | Inr v \<Rightarrow> Inr (Some v),
      \<lparr>msg = message, start = clock w (ticks w),
       msecs = Some \<lceil>1000 * (clock w2 (ticks w2) - clock w (ticks w))\<rceil>\<rparr>,
      w2\<lparr>events := events w2 @
          [ClockRead (clock w2 (ticks w2)),
           Printed (timer_message message \<lceil>1000 * (clock w2 (ticks w2) - clock w (ticks w))\<rceil>)]\<rparr>)"
  using assms
  by (simp add: with_ContextTimer_def timer_enter_eq timer_exit_eq ContextTimer_def split: sum.split)

lemma sublist_timer_message:
  "sublist message (timer_message message ms)" "sublist (str_int ms) (timer_message message ms)"
proof -
  show "sublist message (timer_message message ms)"
    unfolding timer_message_def sublist_def by blast
  have "timer_message message ms = (''<-- '' @ message @ '',  time: '') @ str_int ms @ '' ms''"
    by (simp add: timer_message_def)
  then show "sublist (str_int ms) (timer_message message ms)"
    unfolding sublist_def by blast
qed

text \<open>
  C2. \<open>__enter__\<close> reads the clock once, stores the reading in \<open>start\<close>, changes nothing else
  of the timer and returns the timer itself. \<open>__exit__\<close> reads the clock once, sets \<open>msecs\<close>
  to the ceiling of 1000 times (the reading minus \<open>start\<close>) and then prints exactly one
  line, which contains \<open>msg\<close> and \<open>msecs\<close>. So in every use
  \<open>with ContextTimer(message): body\<close>, whatever the body does with the notebook, \<open>msecs\<close>
  ends as the ceiling of 1000 times (the reading on exit minus the reading on entry) and
  one line with the message and that number follows the body's output.
\<close>

theorem timer_records_and_reports:
  assumes "body \<lparr>msg = message, start = clock w (ticks w), msecs = None\<rparr>
             (w\<lparr>events := events w @ [ClockRead (clock w (ticks w))]\<rparr>) = (r, w2)"
  shows "(case timer_enter self w of (ret, self1, w1) \<Rightarrow>
            ret = self1 \<and> self1 = self\<lparr>start := clock w (ticks w)\<rparr> \<and>
            w1 = w\<lparr>events := events w @ [ClockRead (clock w (ticks w))]\<rparr> \<and>
            ticks w1 = ticks w + 1 \<and> out w1 = out w \<and> calls w1 = calls w) \<and>
         (case timer_exit self args w of (ret, self1, w1) \<Rightarrow>
            self1 = self\<lparr>msecs := Some \<lceil>1000 * (clock w (ticks w) - start self)\<rceil>\<rparr> \<and>
            (\<exists>line. w1 = w\<lparr>events := events w @ [ClockRead (clock w (ticks w)), Printed line]\<rparr> \<and>
               ticks w1 = ticks w + 1 \<and> out w1 = out w @ [line] \<and> calls w1 = calls w \<and>
               sublist (msg self) line \<and>
               sublist (str_int \<lceil>1000 * (clock w (ticks w) - start self)\<rceil>) line)) \<and>
         (case with_ContextTimer message body w of (res, tt, w3) \<Rightarrow>
            msg tt = message \<and> start tt = clock w (ticks w) \<and>
            msecs tt = Some \<lceil>1000 * (clock w2 (ticks w2) - clock w (ticks w))\<rceil> \<and>
            events w3 = events w2 @
              [ClockRead (clock w2 (ticks w2)),
               Printed (''<-- '' @ message @ '',  time: '' @
                 str_int \<lceil>1000 * (clock w2 (ticks w2) - clock w (ticks w))\<rceil> @ '' ms'')] \<and>
            out w3 = out w2 @
              [''<-- '' @ message @ '',  time: '' @
                 str_int \<lceil>1000 * (clock w2 (ticks w2) - clock w (ticks w))\<rceil> @ '' ms''])"
proof (intro conjI)
  show "case timer_enter self w of (ret, self1, w1) \<Rightarrow>
            ret = self1 \<and> self1 = self\<lparr>start := clock w (ticks w)\<rparr> \<and>
            w1 = w\<lparr>events := events w @ [ClockRead (clock w (ticks w))]\<rparr> \<and>
            ticks w1 = ticks w + 1 \<and> out w1 = out w \<and> calls w1 = calls w"
    by (simp add: timer_enter_eq ticks_events out_events calls_events)
  show "case timer_exit self args w of (ret, self1, w1) \<Rightarrow>
            self1 = self\<lparr>msecs := Some \<lceil>1000 * (clock w (ticks w) - start self)\<rceil>\<rparr> \<and>
            (\<exists>line. w1 = w\<lparr>events := events w @ [ClockRead (clock w (ticks w)), Printed line]\<rparr> \<and>
               ticks w1 = ticks w + 1 \<and> out w1 = out w @ [line] \<and> calls w1 = calls w \<and>
               sublist (msg self) line \<and>
               sublist (str_int \<lceil>1000 * (clock w (ticks w) - start self)\<rceil>) line)"
    unfolding timer_exit_eq prod.case
    by (intro conjI exI [of _ "timer_message (msg self) \<lceil>1000 * (clock w (ticks w) - start self)\<rceil>"]
        sublist_timer_message refl) (simp_all add: ticks_events out_events calls_events)
  show "case with_ContextTimer message body w of (res, tt, w3) \<Rightarrow>
            msg tt = message \<and> start tt = clock w (ticks w) \<and>
            msecs tt = Some \<lceil>1000 * (clock w2 (ticks w2) - clock w (ticks w))\<rceil> \<and>
            events w3 = events w2 @
              [ClockRead (clock w2 (ticks w2)),
               Printed (''<-- '' @ message @ '',  time: '' @
                 str_int \<lceil>1000 * (clock w2 (ticks w2) - clock w (ticks w))\<rceil> @ '' ms'')] \<and>
            out w3 = out w2 @
              [''<-- '' @ message @ '',  time: '' @
                 str_int \<lceil>1000 * (clock w2 (ticks w2) - clock w (ticks w))\<rceil> @ '' ms'']"
    using assms by (simp add: with_ContextTimer_eq [of body message w r w2] timer_message_def out_events)
qed

theorem timer_records_and_reports_witness:
  "(case with_ContextTimer ''fibonacci 30'' (\<lambda>tt w. (Inr (), print ''fibonacci(30) = 832040'' w))
          (fresh (\<lambda>k. if k = 0 then 10 else 23 / 2)) of
      (res, tt, w3) \<Rightarrow>
        msg tt = ''fibonacci 30'' \<and> start tt = 10 \<and> msecs tt = Some 1500 \<and>
        events w3 = [ClockRead 10, Printed ''fibonacci(30) = 832040'', ClockRead (23 / 2),
                     Printed ''<-- fibonacci 30,  time: 1500 ms''] \<and>
        out w3 = [''fibonacci(30) = 832040'', ''<-- fibonacci 30,  time: 1500 ms''])"
proof -
  have "str_int 1500 = ''1500''"
    by (simp add: str_int_def str_nat.simps digit_char_def)
  then show ?thesis
    using timer_records_and_reports [of "\<lambda>tt w. (Inr (), print ''fibonacci(30) = 832040'' w)"
        "''fibonacci 30''" "fresh (\<lambda>k. if k = 0 then 10 else 23 / 2)" "Inr ()"
        "print ''fibonacci(30) = 832040''
           ((fresh (\<lambda>k. if k = 0 then 10 else 23 / 2))\<lparr>events := [ClockRead 10]\<rparr>)"]
    by (simp add: fresh_def print_def ticks_def out_def split: prod.splits)
qed

text \<open>
  C3. The exit action runs on every way out of a block guarded by the timer. Whatever the
  body's outcome \<open>r\<close>, a value or an exception, the clock is read, \<open>msecs\<close> is set and the
  line is printed after all the body did; \<open>__exit__\<close> does the same for every exception
  argument and returns \<open>None\<close>, which is not a true value, so an exception of the body is
  the outcome of the whole statement.
\<close>

theorem timer_reports_on_every_exit_path:
  assumes "body \<lparr>msg = message, start = clock w (ticks w), msecs = None\<rparr>
             (w\<lparr>events := events w @ [ClockRead (clock w (ticks w))]\<rparr>) = (r, w2)"
  shows "with_ContextTimer message body w =
           (case r of Inl e \<Rightarrow> Inl e | Inr v \<Rightarrow> Inr (Some v),
            \<lparr>msg = message, start = clock w (ticks w),
             msecs = Some \<lceil>1000 * (clock w2 (ticks w2) - clock w (ticks w))\<rceil>\<rparr>,
            w2\<lparr>events := events w2 @
                [ClockRead (clock w2 (ticks w2)),
                 Printed (timer_message message
                   \<lceil>1000 * (clock w2 (ticks w2) - clock w (ticks w))\<rceil>)]\<rparr>) \<and>
         timer_exit self (exc_info r) w2 = timer_exit self None w2 \<and>
         fst (timer_exit self (exc_info r) w2) = PyNone \<and>
         \<not> truthy (fst (timer_exit self (exc_info r) w2))"
  using assms
  by (simp add: with_ContextTimer_eq [of body message w r w2] timer_exit_eq print_def time_time_def)

theorem timer_reports_on_every_exit_path_witness:
  "with_ContextTimer ''bench'' (\<lambda>tt w. (Inl (LibraryError ''no licence'') :: error + unit, w))
       (fresh (\<lambda>k. real k / 4)) =
     (Inl (LibraryError ''no licence''),
      \<lparr>msg = ''bench'', start = 0, msecs = Some 250\<rparr>,
      (fresh (\<lambda>k. real k / 4))\<lparr>events :=
         [ClockRead 0, ClockRead (1 / 4), Printed ''<-- bench,  time: 250 ms'']\<rparr>)"
proof -
  have "str_int 250 = ''250''"
    by (simp add: str_int_def str_nat.simps digit_char_def)
  then show ?thesis
    using timer_reports_on_every_exit_path
      [of "\<lambda>tt w. (Inl (LibraryError ''no licence''), w)" "''bench''" "fresh (\<lambda>k. real k / 4)"
          "Inl (LibraryError ''no licence'')"
          "(fresh (\<lambda>k. real k / 4))\<lparr>events := [ClockRead 0]\<rparr>"
          "ContextTimer ''bench''", THEN conjunct1]
    by (simp add: fresh_def print_def timer_message_def time_time_def ticks_def)
qed

section \<open>Timed builds\<close>

lemma timed_build_eq:
  assumes "emits (bf L N) l r"
  shows "timed_build L label bf N w =
     (case r of Inl e \<Rightarrow> Inl e | Inr m \<Rightarrow> Inr (Some m),
      \<lparr>msg = label @ str_int N, start = clock w (ticks w),
       msecs = Some \<lceil>1000 * (clock w (ticks w + 1) - clock w (ticks w))\<rceil>\<rparr>,
      w\<lparr>events := events w @ [ClockRead (clock w (ticks w))] @ map LibCall l @
          [ClockRead (clock w (ticks w + 1)),
           Printed (timer_message (label @ str_int N)
                      \<lceil>1000 * (clock w (ticks w + 1) - clock w (ticks w))\<rceil>)]\<rparr>)"
proof -
  let ?w1 = "w\<lparr>events := events w @ [ClockRead (clock w (ticks w))]\<rparr>"
  let ?w2 = "w\<lparr>events := events w @ ClockRead (clock w (ticks w)) # map LibCall l\<rparr>"
  have body: "bf L N ?w1 = (r, ?w2)"
    using assms by (simp add: emits_def)
  have t: "ticks ?w2 = ticks w + 1"
    by (simp add: ticks_events events_of_calls reads_append)
  have c: "clock ?w2 = clock w"
    by simp
  show ?thesis
    unfolding timed_build_def
    by (subst with_ContextTimer_eq [where r = r and ?w2.0 = ?w2]) (simp_all add: body t)
qed

text \<open>
  C5. A benchmark builder catches nothing, tries nothing again and raises nothing of its
  own. Whatever the library raises and whenever, a build makes a sequence \<open>l\<close> of library
  calls and does nothing else to the notebook; no call of \<open>l\<close> but the last one raised; and
  the build ends in an error exactly when its last call raised, with that call's
  exception as it was raised. So the build stops at the first call that raises: it makes
  no call after it, neither the same call again nor a call that cleans up, and an error
  that ends a build is never a missing key or an index out of range of the notebook's own
  dictionaries and ranges. The timer around a build reads the clock before and after
  these calls, prints its line, makes no call of its own and hands the build's outcome,
  the exception included, on to the caller.
\<close>

theorem builds_pass_on_what_the_library_raises:
  assumes "bf \<in> set all_builders"
  shows "\<exists>l r. (\<forall>w. bf L sz w = (r, w\<lparr>events := events w @ map LibCall l\<rparr>)) \<and>
           list_all (\<lambda>c. L c = None) (butlast l) \<and>
           (case r of
              Inl e \<Rightarrow> l \<noteq> [] \<and> (case L (last l) of None \<Rightarrow> False | Some x \<Rightarrow> e = LibraryError x)
            | Inr m \<Rightarrow> list_all (\<lambda>c. L c = None) l) \<and>
           (\<forall>label w. case timed_build L label bf sz w of (res, tt, w') \<Rightarrow>
              res = (case r of Inl e \<Rightarrow> Inl e | Inr m \<Rightarrow> Inr (Some m)) \<and>
              events w' = events w @ [ClockRead (clock w (ticks w))] @ map LibCall l @
                [ClockRead (clock w (ticks w + 1)),
                 Printed (timer_message (label @ str_int sz)
                            \<lceil>1000 * (clock w (ticks w + 1) - clock w (ticks w))\<rceil>)])"
proof -
  from faithful_all_builders [OF assms, of L sz] obtain l r where
    e: "emits (bf L sz) l r" and f: "faithful_run L l r"
    unfolding faithful_def by blast
  from e have run: "\<forall>w. bf L sz w = (r, w\<lparr>events := events w @ map LibCall l\<rparr>)"
    by (simp add: emits_def)
  from f have quiet: "list_all (\<lambda>c. L c = None) (butlast l)"
    and last: "case r of
              Inl e \<Rightarrow> l \<noteq> [] \<and> (case L (last l) of None \<Rightarrow> False | Some x \<Rightarrow> e = LibraryError x)
            | Inr m \<Rightarrow> list_all (\<lambda>c. L c = None) l"
    by (simp_all add: faithful_run_def)
  have timed: "\<forall>label w. case timed_build L label bf sz w of (res, tt, w') \<Rightarrow>
              res = (case r of Inl e \<Rightarrow> Inl e | Inr m \<Rightarrow> Inr (Some m)) \<and>
              events w' = events w @ [ClockRead (clock w (ticks w))] @ map LibCall l @
                [ClockRead (clock w (ticks w + 1)),
                 Printed (timer_message (label @ str_int sz)
                            \<lceil>1000 * (clock w (ticks w + 1) - clock w (ticks w))\<rceil>)]"
    using e by (simp add: timed_build_eq [where bf = bf and L = L and N = sz and l = l and r = r])
  from run quiet last timed show ?thesis
    by blast
qed

theorem builds_pass_on_what_the_library_raises_witness:
  "\<exists>l. (\<forall>w. build_bench_model4 (\<lambda>c. case c of MinimizeCall e \<Rightarrow> Some ''unbounded'' | _ \<Rightarrow> None) 1 w =
            (Inl (LibraryError ''unbounded''), w\<lparr>events := events w @ map LibCall l\<rparr>)) \<and>
       length l = 7 \<and> last l = MinimizeCall [(0, 1)] \<and>
       list_all (\<lambda>c. (case c of MinimizeCall e \<Rightarrow> Some ''unbounded'' | _ \<Rightarrow> None) = None) (butlast l) \<and>
       fst (timed_build (\<lambda>c. case c of MinimizeCall e \<Rightarrow> Some ''unbounded'' | _ \<Rightarrow> None)
              ''bench4 size='' build_bench_model4 1 (fresh (\<lambda>k. real k))) =
         Inl (LibraryError ''unbounded'')"
proof -
  let ?L = "\<lambda>c. case c of MinimizeCall e \<Rightarrow> Some ''unbounded'' | _ \<Rightarrow> None"
  have bf: "build_bench_model4 \<in> set all_builders"
    by (simp add: all_builders_def scal_prod_builders_def)
  from builds_pass_on_what_the_library_raises [OF bf, of ?L 1] obtain l r where
    run: "\<forall>w. build_bench_model4 ?L 1 w = (r, w\<lparr>events := events w @ map LibCall l\<rparr>)" and
    quiet: "list_all (\<lambda>c. ?L c = None) (butlast l)" and
    timed: "\<forall>label w. case timed_build ?L label build_bench_model4 1 w of (res, tt, w') \<Rightarrow>
              res = (case r of Inl e \<Rightarrow> Inl e | Inr m \<Rightarrow> Inr (Some m)) \<and>
              events w' = events w @ [ClockRead (clock w (ticks w))] @ map LibCall l @
                [ClockRead (clock w (ticks w + 1)),
                 Printed (timer_message (label @ str_int 1)
                            \<lceil>1000 * (clock w (ticks w + 1) - clock w (ticks w))\<rceil>)]"
    by (elim exE conjE) (rule that)
  have out: "fst (build_bench_model4 ?L 1 (fresh (\<lambda>k. 0))) = Inl (LibraryError ''unbounded'')"
    by code_simp
  have trace: "length (calls (snd (build_bench_model4 ?L 1 (fresh (\<lambda>k. 0))))) = 7 \<and>
      last (calls (snd (build_bench_model4 ?L 1 (fresh (\<lambda>k. 0))))) = MinimizeCall [(0, 1)]"
    by code_simp
  from run have r: "r = Inl (LibraryError ''unbounded'')"
    using out by simp
  from run have l: "calls (snd (build_bench_model4 ?L 1 (fresh (\<lambda>k. 0)))) = l"
    by (simp add: calls_events events_of_calls fresh_def calls_def)
  have t: "fst (timed_build ?L ''bench4 size='' build_bench_model4 1 (fresh (\<lambda>k. real k))) =
         Inl (LibraryError ''unbounded'')"
    using timed [rule_format, where label = "''bench4 size=''" and w = "fresh (\<lambda>k. real k)"]
    by (simp add: r split: prod.splits)
  show ?thesis
    apply (rule exI [of _ l])
    apply (intro conjI)
        apply (fold r)
        apply (rule run)
       apply (simp add: trace [unfolded l])
      apply (simp add: trace [unfolded l])
     apply (rule quiet)
    apply (simp only: r t)
    done
qed

text \<open>
  C6. A build reads nothing of the notebook and writes nothing to it but the record of
  its library calls: no variable, no clock reading, no output. Started in two states of
  the notebook that differ in any way (other clocks, other output, other earlier calls,
  other variables), a builder ends with the same outcome, hence models with the same
  variables, constraints and objective, and makes the same calls; run twice in a row it
  ends with the same outcome twice. The same holds of the timed build, which adds to the
  notebook its two clock readings and its line: the clock decides the number in that line
  and nothing of the model.
\<close>

theorem builds_are_deterministic:
  assumes "bf \<in> set all_builders"
  shows "fst (bf L sz w) = fst (bf L sz w') \<and>
         (\<exists>l. snd (bf L sz w) = w\<lparr>events := events w @ map LibCall l\<rparr> \<and>
              snd (bf L sz w') = w'\<lparr>events := events w' @ map LibCall l\<rparr>) \<and>
         fst (bf L sz (snd (bf L sz w))) = fst (bf L sz w) \<and>
         fst (timed_build L label bf sz w) = fst (timed_build L label bf sz w') \<and>
         (case timed_build L label bf sz w of (res1, tt1, w1) \<Rightarrow>
            res1 = (case fst (bf L sz w) of Inl e \<Rightarrow> Inl e | Inr m \<Rightarrow> Inr (Some m)) \<and>
            (\<exists>l. w1 = w\<lparr>events := events w @ [ClockRead (clock w (ticks w))] @ map LibCall l @
                     [ClockRead (clock w (ticks w + 1)),
                      Printed (timer_message (label @ str_int sz)
                        \<lceil>1000 * (clock w (ticks w + 1) - clock w (ticks w))\<rceil>)]\<rparr>) \<and>
            (case timed_build L label bf sz w1 of (res2, tt2, w2) \<Rightarrow> res2 = res1))"
proof -
  from faithful_all_builders [OF assms, of L sz] obtain l r where e: "emits (bf L sz) l r"
    unfolding faithful_def by blast
  note timed = timed_build_eq [where bf = bf and L = L and N = sz and l = l and r = r, OF e]
  have a: "fst (bf L sz w) = fst (bf L sz w')"
    by (simp add: emits_fst [OF e])
  have b: "\<exists>l. snd (bf L sz w) = w\<lparr>events := events w @ map LibCall l\<rparr> \<and>
              snd (bf L sz w') = w'\<lparr>events := events w' @ map LibCall l\<rparr>"
    by (rule exI [of _ l]) (simp add: emits_snd [OF e])
  have c: "fst (bf L sz (snd (bf L sz w))) = fst (bf L sz w)"
    by (simp add: emits_fst [OF e])
  have d: "fst (timed_build L label bf sz w) = fst (timed_build L label bf sz w')"
    by (simp add: timed)
  have f: "case timed_build L label bf sz w of (res1, tt1, w1) \<Rightarrow>
            res1 = (case fst (bf L sz w) of Inl e \<Rightarrow> Inl e | Inr m \<Rightarrow> Inr (Some m)) \<and>
            (\<exists>l. w1 = w\<lparr>events := events w @ [ClockRead (clock w (ticks w))] @ map LibCall l @
                     [ClockRead (clock w (ticks w + 1)),
                      Printed (timer_message (label @ str_int sz)
                        \<lceil>1000 * (clock w (ticks w + 1) - clock w (ticks w))\<rceil>)]\<rparr>) \<and>
            (case timed_build L label bf sz w1 of (res2, tt2, w2) \<Rightarrow> res2 = res1)"
    unfolding timed prod.case emits_fst [OF e]
    by (intro conjI exI [of _ l] refl)
  from a b c d f show ?thesis
    by (intro conjI)
qed

theorem builds_are_deterministic_witness:
  "fst (build_bench_model7 never 3000 (fresh (\<lambda>k. real k))) =
   fst (build_bench_model7 never 3000
          ((fresh (\<lambda>k. 7 - real k / 3))\<lparr>events := [Printed ''earlier output''], var_r := 5\<rparr>)) \<and>
   fst (timed_build never ''bench7 size='' build_bench_model7 3000 (fresh (\<lambda>k. real k))) =
   fst (timed_build never ''bench7 size='' build_bench_model7 3000
          ((fresh (\<lambda>k. 7 - real k / 3))\<lparr>events := [Printed ''earlier output''], var_r := 5\<rparr>))"
proof -
  have bf: "build_bench_model7 \<in> set all_builders"
    by (simp add: all_builders_def scal_prod_builders_def)
  note all = builds_are_deterministic [OF bf, of never 3000 "fresh (\<lambda>k. real k)"
      "(fresh (\<lambda>k. 7 - real k / 3))\<lparr>events := [Printed ''earlier output''], var_r := 5\<rparr>"
      "''bench7 size=''"]
  from conjunct1 [OF all] conjunct1 [OF conjunct2 [OF conjunct2 [OF conjunct2 [OF all]]]]
  show ?thesis
    by (rule conjI)
qed

section \<open>Properties of the sampling loop\<close>































section \<open>Properties of \<open>fib\<close>\<close>

lemma fib_le_2: "n \<le> 2 \<Longrightarrow> fib n = 1"
  by (simp add: fib.simps)

lemma fib_gt_2: "2 < n \<Longrightarrow> fib n = fib (n - 1) + fib (n - 2)"
  by (subst fib.simps) simp

lemma fib_Fibonacci_nat: "fib (int (Suc k)) = int (Fibonacci (Suc k)) \<and> fib (int (Suc (Suc k))) = int (Fibonacci (Suc (Suc k)))"
proof (induction k)
  case 0
  show ?case by (simp add: fib_le_2)
next
  case (Suc k)
  have "fib (int (Suc (Suc (Suc k)))) = fib (int (Suc (Suc k))) + fib (int (Suc k))"
    using fib_gt_2 [of "int (Suc (Suc (Suc k)))"] by simp
  with Suc show ?case by simp
qed

text \<open>
  C8. \<open>fib\<close> is a total function on the integers (its termination is proved above, so it
  has a value at every integer, zero and the negatives included): it returns 1 whenever
  \<open>n \<le> 2\<close>, \<open>fib (n - 1) + fib (n - 2)\<close> otherwise, and for every \<open>n \<ge> 1\<close> it is the
  Fibonacci number \<open>F(n)\<close> with \<open>F(1) = F(2) = 1\<close>.
\<close>

theorem fib_total_Fibonacci:
  "(n \<le> 2 \<longrightarrow> fib n = 1) \<and>
   (2 < n \<longrightarrow> fib n = fib (n - 1) + fib (n - 2)) \<and>
   (1 \<le> n \<longrightarrow> fib n = int (Fibonacci (nat n)))"
proof (intro conjI impI)
  assume "1 \<le> n"
  then obtain k where k: "nat n = Suc k"
    by (cases "nat n") auto
  with \<open>1 \<le> n\<close> have n: "n = int (Suc k)"
    by linarith
  have "fib (int (Suc k)) = int (Fibonacci (Suc k))"
    using fib_Fibonacci_nat [of k] by blast
  then show "fib n = int (Fibonacci (nat n))"
    unfolding n nat_int .
qed (simp_all add: fib_le_2 fib_gt_2)

theorem fib_total_Fibonacci_witness:
  "fib (- 3) = 1 \<and> fib 0 = 1 \<and> fib 6 = fib 5 + fib 4 \<and> fib 6 = 8"
  using fib_total_Fibonacci [of "- 3"] fib_total_Fibonacci [of 0] fib_total_Fibonacci [of 6]
  by (simp add: eval_nat_numeral)

end
